theory Spec2Isabelle
  imports Complex_Main "HOL-Library.Multiset"
begin

section \<open>Data model (backend/database.py, backend/config.py)\<close>

text \<open>
  A naive UTC \<open>datetime\<close> is modelled by the number of microseconds since the epoch
  (Python's datetime arithmetic is exact at that resolution); \<open>timedelta(hours=1)\<close> is
  \<open>cooldown\<close>. A Python \<open>float\<close> is modelled by the real number it denotes (finite
  values only); the code only compares floats and formats them.
\<close>

type_synonym timestamp = int

definition cooldown :: int where
  "cooldown = 3600000000"

text \<open>The values \<open>json.loads\<close> produces. An object keeps its members in document order.\<close>

datatype json =
    JNull
  | JBool bool
  | JNum real
  | JStr string
  | JArr "json list"
  | JObj "(string \<times> json) list"

datatype error =
    StorageError
  | IntegrityError
  | JSONDecodeError
  | AttributeError
  | TypeError
  | ValueError
  | OverflowError

text \<open>The three \<open>print\<close> statements of the backend that report a caught exception.\<close>

datatype log_entry =
    ErrorStoring error
  | ErrorCheckingAlerts error
  | ErrorProcessingMQTT error

record sensor =
  s_id :: nat
  s_sensor_id :: string
  s_name :: string
  s_location :: string
  s_sensor_type :: string

record sensor_reading =
  r_id :: nat
  r_sensor_id :: string
  r_timestamp :: timestamp
  r_value :: real
  r_unit :: json

record alert =
  a_id :: nat
  a_sensor_id :: string
  a_timestamp :: timestamp
  a_value :: real
  a_threshold :: real
  a_message :: string
  a_was_notified :: int

text \<open>The committed contents of the three tables, each in insertion order.\<close>

record database =
  sensors :: "sensor list"
  sensor_readings :: "sensor_reading list"
  alerts :: "alert list"

definition empty_db :: database where
  "empty_db = \<lparr>sensors = [], sensor_readings = [], alerts = []\<rparr>"

text \<open>The alert thresholds of \<open>Settings\<close>.\<close>

record settings =
  TEMPERATURE_MIN :: real
  TEMPERATURE_MAX :: real
  HUMIDITY_MIN :: real
  HUMIDITY_MAX :: real

definition default_settings :: settings where
  "default_settings =
     \<lparr>TEMPERATURE_MIN = 10, TEMPERATURE_MAX = 30, HUMIDITY_MIN = 20, HUMIDITY_MAX = 80\<rparr>"

text \<open>
  The dictionary \<open>sensor_data\<close> handed to \<open>process_sensor_data\<close>. Both callers supply
  every key; \<open>timestamp\<close> is the one key the gateway reads with \<open>.get\<close>, so it is
  optional here. The unit is whatever Python value the transport put there.
\<close>

record sensor_data =
  sd_sensor_id :: string
  sd_name :: string
  sd_location :: string
  sd_sensor_type :: string
  sd_value :: real
  sd_unit :: json
  sd_timestamp :: "timestamp option"

text \<open>
  Everything outside the program that one unit of work (one request, one bus message)
  depends on: the configuration, the two library conversions between floats and strings
  (\<open>str(float)\<close> inside an f-string, \<open>float(str)\<close>), the successive readings of
  \<open>datetime.utcnow()\<close>, and which storage operations raise. \<open>db.rollback()\<close> and
  \<open>db.close()\<close> are taken not to raise.
\<close>

record env =
  cfg :: settings
  float_str :: "real \<Rightarrow> string"
  str_float :: "string \<Rightarrow> real option"
  clk_handler :: timestamp
  clk_default :: timestamp
  clk_check :: timestamp
  clk_create :: timestamp
  fail_request_query :: bool
  fail_sensor_query :: bool
  fail_sensor_commit :: bool
  fail_sensor_refresh :: bool
  fail_reading_commit :: bool
  fail_alert_query :: bool
  fail_alert_commit :: bool
  fail_notified_commit :: bool

text \<open>
  What a call leaves behind: the exception it lets escape to its caller (if any), the
  committed database, and the lines it printed.
\<close>

record outcome =
  raised :: "error option"
  db_after :: database
  printed :: "log_entry list"

section \<open>Storage primitives\<close>

text \<open>An autoincrement integer primary key: one more than the largest key in use.\<close>

definition next_id :: "nat list \<Rightarrow> nat" where
  "next_id ids = Suc (fold max ids 0)"

text \<open>\<open>db.query(Sensor).filter(Sensor.sensor_id == sid).first()\<close>\<close>

definition query_sensor_first :: "string \<Rightarrow> database \<Rightarrow> sensor option" where
  "query_sensor_first sid db = find (\<lambda>s. s_sensor_id s = sid) (sensors db)"

text \<open>
  \<open>db.add(sensor); db.commit()\<close>: the column \<open>sensor_id\<close> is declared \<open>unique=True\<close>,
  so inserting a second row with the same identifier is refused.
\<close>

definition commit_sensor ::
  "string \<Rightarrow> string \<Rightarrow> string \<Rightarrow> string \<Rightarrow> database \<Rightarrow> error + database" where
  "commit_sensor sid nm loc ty db =
     (if sid \<in> set (map s_sensor_id (sensors db)) then Inl IntegrityError
      else Inr (db\<lparr>sensors := sensors db @
             [\<lparr>s_id = next_id (map s_id (sensors db)), s_sensor_id = sid, s_name = nm,
               s_location = loc, s_sensor_type = ty\<rparr>]\<rparr>))"

section \<open>Alert evaluation and creation (backend/alert_system.py)\<close>

text \<open>The degree sign U+00B0 of the temperature messages.\<close>

definition degree_sign :: string where
  "degree_sign = [CHR 0xB0]"

text \<open>The first alert of the sensor with \<open>Alert.timestamp > one_hour_ago\<close>.\<close>

definition recent_alert :: "env \<Rightarrow> string \<Rightarrow> database \<Rightarrow> alert option" where
  "recent_alert e sid db =
     find (\<lambda>a. a_sensor_id a = sid \<and> a_timestamp a > clk_check e - cooldown) (alerts db)"

text \<open>The object \<open>Alert(...)\<close> that \<open>create_alert\<close> builds, with \<open>was_notified=0\<close>.\<close>

definition new_alert :: "env \<Rightarrow> database \<Rightarrow> sensor_data \<Rightarrow> real \<Rightarrow> string \<Rightarrow> alert" where
  "new_alert e db sd threshold message =
     \<lparr>a_id = next_id (map a_id (alerts db)),
      a_sensor_id = sd_sensor_id sd,
      a_timestamp = clk_create e,
      a_value = sd_value sd,
      a_threshold = threshold,
      a_message = message,
      a_was_notified = 0\<rparr>"

text \<open>
  \<open>create_alert\<close>. The first commit stores the alert with \<open>was_notified = 0\<close>; the call
  of \<open>send_notifications\<close> is commented out in the source; the second commit stores the
  flag 1. The result pairs the exception raised (if any) with the committed database.
\<close>

definition create_alert ::
  "env \<Rightarrow> database \<Rightarrow> sensor_data \<Rightarrow> real \<Rightarrow> string \<Rightarrow> error option \<times> database" where
  "create_alert e db sd threshold message =
     (if fail_alert_query e then (Some StorageError, db)
      else case recent_alert e (sd_sensor_id sd) db of
        Some _ \<Rightarrow> (None, db)
      | None \<Rightarrow>
          if fail_alert_commit e then (Some StorageError, db)
          else
            let alert = new_alert e db sd threshold message
            in if fail_notified_commit e
               then (Some StorageError, db\<lparr>alerts := alerts db @ [alert]\<rparr>)
               else (None, db\<lparr>alerts := alerts db @ [alert\<lparr>a_was_notified := 1\<rparr>]\<rparr>))"

definition check_alert_conditions ::
  "env \<Rightarrow> database \<Rightarrow> sensor_data \<Rightarrow> error option \<times> database" where
  "check_alert_conditions e db sd =
     (let sensor_type = sd_sensor_type sd; value = sd_value sd in
      if sensor_type = ''temperature'' then
        if value < TEMPERATURE_MIN (cfg e) then
          create_alert e db sd (TEMPERATURE_MIN (cfg e))
            (''Low temperature alert: '' @ float_str e value @ degree_sign
               @ ''C is below threshold of '' @ float_str e (TEMPERATURE_MIN (cfg e))
               @ degree_sign @ ''C'')
        else if value > TEMPERATURE_MAX (cfg e) then
          create_alert e db sd (TEMPERATURE_MAX (cfg e))
            (''High temperature alert: '' @ float_str e value @ degree_sign
               @ ''C is above threshold of '' @ float_str e (TEMPERATURE_MAX (cfg e))
               @ degree_sign @ ''C'')
        else (None, db)
      else if sensor_type = ''humidity'' then
        if value < HUMIDITY_MIN (cfg e) then
          create_alert e db sd (HUMIDITY_MIN (cfg e))
            (''Low humidity alert: '' @ float_str e value
               @ ''% is below threshold of '' @ float_str e (HUMIDITY_MIN (cfg e)) @ ''%'')
        else if value > HUMIDITY_MAX (cfg e) then
          create_alert e db sd (HUMIDITY_MAX (cfg e))
            (''High humidity alert: '' @ float_str e value
               @ ''% is above threshold of '' @ float_str e (HUMIDITY_MAX (cfg e)) @ ''%'')
        else (None, db)
      else (None, db))"

text \<open>
  Two views of \<open>check_alert_conditions\<close> used to state its properties: the table of
  (min, max) pairs its branches read, and the arguments (threshold, message) of the call
  of \<open>create_alert\<close> it makes, if it makes one.
\<close>

definition threshold_table :: "settings \<Rightarrow> string \<Rightarrow> (real \<times> real) option" where
  "threshold_table st ty =
     (if ty = ''temperature'' then Some (TEMPERATURE_MIN st, TEMPERATURE_MAX st)
      else if ty = ''humidity'' then Some (HUMIDITY_MIN st, HUMIDITY_MAX st)
      else None)"

definition alert_candidate :: "env \<Rightarrow> sensor_data \<Rightarrow> (real \<times> string) option" where
  "alert_candidate e sd =
     (let sensor_type = sd_sensor_type sd; value = sd_value sd in
      if sensor_type = ''temperature'' then
        if value < TEMPERATURE_MIN (cfg e) then
          Some (TEMPERATURE_MIN (cfg e),
            ''Low temperature alert: '' @ float_str e value @ degree_sign
               @ ''C is below threshold of '' @ float_str e (TEMPERATURE_MIN (cfg e))
               @ degree_sign @ ''C'')
        else if value > TEMPERATURE_MAX (cfg e) then
          Some (TEMPERATURE_MAX (cfg e),
            ''High temperature alert: '' @ float_str e value @ degree_sign
               @ ''C is above threshold of '' @ float_str e (TEMPERATURE_MAX (cfg e))
               @ degree_sign @ ''C'')
        else None
      else if sensor_type = ''humidity'' then
        if value < HUMIDITY_MIN (cfg e) then
          Some (HUMIDITY_MIN (cfg e),
            ''Low humidity alert: '' @ float_str e value
               @ ''% is below threshold of '' @ float_str e (HUMIDITY_MIN (cfg e)) @ ''%'')
        else if value > HUMIDITY_MAX (cfg e) then
          Some (HUMIDITY_MAX (cfg e),
            ''High humidity alert: '' @ float_str e value
               @ ''% is above threshold of '' @ float_str e (HUMIDITY_MAX (cfg e)) @ ''%'')
        else None
      else None)"

section \<open>The ingestion gateway (backend/data_processor.py)\<close>

text \<open>Lines 12 to 22: look the sensor up, create it when absent.\<close>

definition resolve_sensor :: "env \<Rightarrow> sensor_data \<Rightarrow> database \<Rightarrow> error option \<times> database" where
  "resolve_sensor e sd db =
     (if fail_sensor_query e then (Some StorageError, db)
      else case query_sensor_first (sd_sensor_id sd) db of
        Some sensor \<Rightarrow> (None, db)
      | None \<Rightarrow>
          if fail_sensor_commit e then (Some StorageError, db)
          else (case commit_sensor (sd_sensor_id sd) (sd_name sd) (sd_location sd)
                       (sd_sensor_type sd) db of
                  Inl err \<Rightarrow> (Some err, db)
                | Inr db1 \<Rightarrow>
                    if fail_sensor_refresh e then (Some StorageError, db1) else (None, db1)))"

text \<open>
  Lines 25 to 30: the object \<open>SensorReading(...)\<close>. The default argument of \<open>.get\<close> is
  evaluated whether or not the key is present; it is \<open>clk_default\<close>.
\<close>

definition new_reading :: "env \<Rightarrow> sensor_data \<Rightarrow> database \<Rightarrow> sensor_reading" where
  "new_reading e sd db =
     \<lparr>r_id = next_id (map r_id (sensor_readings db)),
      r_sensor_id = sd_sensor_id sd,
      r_timestamp = (case sd_timestamp sd of Some t \<Rightarrow> t | None \<Rightarrow> clk_default e),
      r_value = sd_value sd,
      r_unit = sd_unit sd\<rparr>"

text \<open>Lines 31 to 32: add the reading and commit.\<close>

definition append_reading :: "env \<Rightarrow> sensor_data \<Rightarrow> database \<Rightarrow> error option \<times> database" where
  "append_reading e sd db =
     (let reading = new_reading e sd db
      in if fail_reading_commit e then (Some StorageError, db)
         else (None, db\<lparr>sensor_readings := sensor_readings db @ [reading]\<rparr>))"

text \<open>
  \<open>process_sensor_data\<close>: an exception of the first two blocks reaches the outer handler
  (rollback of what is not committed, one printed line); an exception of the alert check
  reaches the inner handler (one printed line). Neither handler raises again.
\<close>

definition process_sensor_data :: "env \<Rightarrow> sensor_data \<Rightarrow> database \<Rightarrow> outcome" where
  "process_sensor_data e sd db =
     (case resolve_sensor e sd db of
        (Some err, db1) \<Rightarrow> \<lparr>raised = None, db_after = db1, printed = [ErrorStoring err]\<rparr>
      | (None, db1) \<Rightarrow>
          (case append_reading e sd db1 of
             (Some err, db2) \<Rightarrow> \<lparr>raised = None, db_after = db2, printed = [ErrorStoring err]\<rparr>
           | (None, db2) \<Rightarrow>
               (case check_alert_conditions e db2 sd of
                  (Some err, db3) \<Rightarrow>
                    \<lparr>raised = None, db_after = db3, printed = [ErrorCheckingAlerts err]\<rparr>
                | (None, db3) \<Rightarrow> \<lparr>raised = None, db_after = db3, printed = []\<rparr>)))"

section \<open>String operations of the transports\<close>

text \<open>
  Python's \<open>str.split(sep)\<close>, \<open>str.capitalize()\<close>, \<open>str.replace('_', ' ')\<close> and
  \<open>str.title()\<close>, on strings of one-byte characters; the case conversions act on the
  ASCII letters and leave every other character as it is.
\<close>

fun str_split :: "char \<Rightarrow> string \<Rightarrow> string list" where
  "str_split sep [] = [[]]"
| "str_split sep (c # cs) =
     (if c = sep then [] # str_split sep cs
      else (case str_split sep cs of
              [] \<Rightarrow> [[c]]
            | p # ps \<Rightarrow> (c # p) # ps))"

definition is_lower :: "char \<Rightarrow> bool" where
  "is_lower c = ((97::nat) \<le> of_char c \<and> of_char c \<le> (122::nat))"

definition is_upper :: "char \<Rightarrow> bool" where
  "is_upper c = ((65::nat) \<le> of_char c \<and> of_char c \<le> (90::nat))"

definition to_upper :: "char \<Rightarrow> char" where
  "to_upper c = (if is_lower c then char_of (of_char c - (32::nat)) else c)"

definition to_lower :: "char \<Rightarrow> char" where
  "to_lower c = (if is_upper c then char_of (of_char c + (32::nat)) else c)"

definition str_capitalize :: "string \<Rightarrow> string" where
  "str_capitalize s = (case s of [] \<Rightarrow> [] | c # cs \<Rightarrow> to_upper c # map to_lower cs)"

definition str_replace :: "char \<Rightarrow> char \<Rightarrow> string \<Rightarrow> string" where
  "str_replace old new s = map (\<lambda>c. if c = old then new else c) s"

text \<open>\<open>title_from prev s\<close>: \<open>prev\<close> tells whether the previous character was a letter.\<close>

fun title_from :: "bool \<Rightarrow> string \<Rightarrow> string" where
  "title_from prev [] = []"
| "title_from prev (c # cs) =
     (if is_lower c then (if prev then c else to_upper c) # title_from True cs
      else if is_upper c then (if prev then to_lower c else c) # title_from True cs
      else c # title_from False cs)"

definition str_title :: "string \<Rightarrow> string" where
  "str_title s = title_from False s"

section \<open>The bus transport (backend/mqtt_client.py)\<close>

text \<open>
  A bus message: its topic, and the outcome of \<open>json.loads(msg.payload.decode())\<close>,
  \<open>None\<close> when decoding or parsing raises.
\<close>

record mqtt_message =
  topic :: string
  payload :: "json option"

text \<open>
  \<open>payload.get(key, default)\<close>: only a JSON object becomes a \<open>dict\<close>; of a repeated
  member the last one counts; any other value has no \<open>get\<close>.
\<close>

definition payload_get :: "json \<Rightarrow> string \<Rightarrow> json \<Rightarrow> error + json" where
  "payload_get p key dflt =
     (case p of
        JObj kvs \<Rightarrow> (case map_of (rev kvs) key of None \<Rightarrow> Inr dflt | Some v \<Rightarrow> Inr v)
      | _ \<Rightarrow> Inl AttributeError)"

text \<open>\<open>float(v)\<close> on a value of \<open>json.loads\<close>.\<close>

definition py_float :: "env \<Rightarrow> json \<Rightarrow> error + real" where
  "py_float e v =
     (case v of
        JNum r \<Rightarrow> Inr r
      | JBool b \<Rightarrow> Inr (if b then 1 else 0)
      | JStr s \<Rightarrow> (case str_float e s of None \<Rightarrow> Inl ValueError | Some r \<Rightarrow> Inr r)
      | _ \<Rightarrow> Inl TypeError)"

text \<open>
  Lines 19 to 36 of \<open>on_message\<close>, after the payload is parsed: \<open>Inl\<close> when building the
  dictionary raises, \<open>Inr None\<close> when the topic has fewer than three parts (the \<open>if\<close> has
  no \<open>else\<close>), \<open>Inr (Some sensor_data)\<close> otherwise.
\<close>

definition mqtt_sensor_data :: "env \<Rightarrow> string \<Rightarrow> json \<Rightarrow> error + sensor_data option" where
  "mqtt_sensor_data e tpc p =
     (let topic_parts = str_split (CHR ''/'') tpc in
      if length topic_parts \<ge> 3 then
        let sensor_type = topic_parts ! 1; location = topic_parts ! 2 in
        (case payload_get p ''value'' (JNum 0) of
           Inl err \<Rightarrow> Inl err
         | Inr v \<Rightarrow>
             (case py_float e v of
                Inl err \<Rightarrow> Inl err
              | Inr value \<Rightarrow>
                  (case payload_get p ''unit'' (JStr []) of
                     Inl err \<Rightarrow> Inl err
                   | Inr unit \<Rightarrow>
                       Inr (Some \<lparr>sd_sensor_id = sensor_type @ ''_'' @ location,
                                  sd_name = str_capitalize sensor_type @ '' Sensor'',
                                  sd_location = str_title (str_replace (CHR ''_'') (CHR '' '') location),
                                  sd_sensor_type = sensor_type,
                                  sd_value = value,
                                  sd_unit = unit,
                                  sd_timestamp = Some (clk_handler e)\<rparr>))))
      else Inr None)"

text \<open>
  \<open>on_message\<close>: every exception of the body, also one escaping \<open>process_sensor_data\<close>,
  is caught and printed.
\<close>

definition on_message :: "env \<Rightarrow> mqtt_message \<Rightarrow> database \<Rightarrow> outcome" where
  "on_message e msg db =
     (case payload msg of
        None \<Rightarrow> \<lparr>raised = None, db_after = db, printed = [ErrorProcessingMQTT JSONDecodeError]\<rparr>
      | Some p \<Rightarrow>
          (case mqtt_sensor_data e (topic msg) p of
             Inl err \<Rightarrow> \<lparr>raised = None, db_after = db, printed = [ErrorProcessingMQTT err]\<rparr>
           | Inr None \<Rightarrow> \<lparr>raised = None, db_after = db, printed = []\<rparr>
           | Inr (Some sd) \<Rightarrow>
               (let out = process_sensor_data e sd db in
                case raised out of
                  None \<Rightarrow> out
                | Some err \<Rightarrow>
                    out\<lparr>raised := None, printed := printed out @ [ErrorProcessingMQTT err]\<rparr>)))"

section \<open>The request transport and the read path (backend/main.py)\<close>

text \<open>The request body \<open>SensorData\<close> (fields \<open>sensor_id\<close>, \<open>value\<close>, \<open>unit\<close>); \<open>unit\<close> is
  \<open>Optional[str]\<close>.\<close>

record SensorData =
  req_sensor_id :: string
  req_value :: real
  req_unit :: "string option"

text \<open>The dictionary \<open>add_sensor_data\<close> prepares from the request and the registry.\<close>

definition http_sensor_data :: "env \<Rightarrow> SensorData \<Rightarrow> database \<Rightarrow> sensor_data" where
  "http_sensor_data e data db =
     (let sensor = query_sensor_first (req_sensor_id data) db in
      \<lparr>sd_sensor_id = req_sensor_id data,
       sd_name = (case sensor of Some s \<Rightarrow> s_name s | None \<Rightarrow> req_sensor_id data),
       sd_location = (case sensor of Some s \<Rightarrow> s_location s | None \<Rightarrow> ''unknown''),
       sd_sensor_type = (case sensor of Some s \<Rightarrow> s_sensor_type s
                         | None \<Rightarrow> hd (str_split (CHR ''_'') (req_sensor_id data))),
       sd_value = req_value data,
       sd_unit = (case req_unit data of Some u \<Rightarrow> JStr u | None \<Rightarrow> JNull),
       sd_timestamp = Some (clk_handler e)\<rparr>)"

text \<open>
  \<open>add_sensor_data\<close>: the registry query runs in the request, where an exception
  escapes to the framework; \<open>process_sensor_data\<close> runs as the background task, here
  right after the request with no other work in between.
\<close>

definition add_sensor_data :: "env \<Rightarrow> SensorData \<Rightarrow> database \<Rightarrow> outcome" where
  "add_sensor_data e data db =
     (if fail_request_query e then \<lparr>raised = Some StorageError, db_after = db, printed = []\<rparr>
      else process_sensor_data e (http_sensor_data e data db) db)"

text \<open>
  \<open>get_sensor_readings\<close>. \<open>ORDER BY timestamp DESC\<close> is a stable sort of the table (SQL
  leaves the order of equal timestamps open). The limit is bound as an SQLite INTEGER
  (SQLite is the configured default backend): outside the signed 64-bit range
  \<open>.limit(limit).all()\<close> raises \<open>OverflowError\<close>; inside it a negative limit returns every
  row.
\<close>

definition order_by_timestamp_desc :: "sensor_reading list \<Rightarrow> sensor_reading list" where
  "order_by_timestamp_desc rs = sort_key (\<lambda>r. - r_timestamp r) rs"

definition limit_rows :: "int \<Rightarrow> 'a list \<Rightarrow> error + 'a list" where
  "limit_rows n rs =
     (if n < - (2 ^ 63) \<or> 2 ^ 63 \<le> n then Inl OverflowError
      else if n < 0 then Inr rs
      else Inr (take (nat n) rs))"

definition in_window ::
  "string \<Rightarrow> timestamp option \<Rightarrow> timestamp option \<Rightarrow> sensor_reading \<Rightarrow> bool" where
  "in_window sid start_time end_time r =
     (r_sensor_id r = sid
      \<and> (case start_time of None \<Rightarrow> True | Some t \<Rightarrow> r_timestamp r \<ge> t)
      \<and> (case end_time of None \<Rightarrow> True | Some t \<Rightarrow> r_timestamp r \<le> t))"

definition get_sensor_readings ::
  "string \<Rightarrow> int \<Rightarrow> timestamp option \<Rightarrow> timestamp option \<Rightarrow> database
     \<Rightarrow> error + sensor_reading list" where
  "get_sensor_readings sid limit start_time end_time db =
     limit_rows limit
       (order_by_timestamp_desc (filter (in_window sid start_time end_time) (sensor_readings db)))"

section \<open>Notions used to state the properties\<close>

text \<open>The database one call of the gateway leaves, and the one a sequence of calls leaves.\<close>

definition ingest :: "env \<Rightarrow> sensor_data \<Rightarrow> database \<Rightarrow> database" where
  "ingest e sd db = db_after (process_sensor_data e sd db)"

fun ingest_all :: "(env \<times> sensor_data) list \<Rightarrow> database \<Rightarrow> database" where
  "ingest_all [] db = db"
| "ingest_all ((e, sd) # rest) db = ingest_all rest (ingest e sd db)"

text \<open>
  No storage operation of the registry step raises (the commit and the refresh run only
  for an unregistered sensor); the reading is appended when, after that, its commit does
  not raise either.
\<close>

definition registry_ok :: "env \<Rightarrow> sensor_data \<Rightarrow> database \<Rightarrow> bool" where
  "registry_ok e sd db =
     (\<not> fail_sensor_query e
      \<and> (query_sensor_first (sd_sensor_id sd) db = None \<longrightarrow>
            \<not> fail_sensor_commit e \<and> \<not> fail_sensor_refresh e))"

definition append_ok :: "env \<Rightarrow> sensor_data \<Rightarrow> database \<Rightarrow> bool" where
  "append_ok e sd db = (registry_ok e sd db \<and> \<not> fail_reading_commit e)"



text \<open>Every alert of the table has its \<open>was_notified\<close> flag set.\<close>

definition all_notified :: "alert list \<Rightarrow> bool" where
  "all_notified as = (\<forall>a \<in> set as. a_was_notified a = 1)"

text \<open>The rows of the registry that carry the identifier \<open>sid\<close>.\<close>

definition sensor_rows :: "string \<Rightarrow> database \<Rightarrow> sensor list" where
  "sensor_rows sid db = filter (\<lambda>s. s_sensor_id s = sid) (sensors db)"

section \<open>Sample inputs\<close>

text \<open>
  An environment with the default thresholds, every clock reading at 0 and no storage
  failure; \<open>float_str\<close> is Python's formatting at the values the examples use.
\<close>

definition env0 :: env where
  "env0 = \<lparr>cfg = default_settings,
           float_str = (\<lambda>r. if r = 35 then ''35.0'' else if r = 30 then ''30.0''
                             else if r = 10 then ''10.0'' else ''0.0''),
           str_float = (\<lambda>s. None),
           clk_handler = 0, clk_default = 0, clk_check = 0, clk_create = 0,
           fail_request_query = False, fail_sensor_query = False, fail_sensor_commit = False,
           fail_sensor_refresh = False, fail_reading_commit = False, fail_alert_query = False,
           fail_alert_commit = False, fail_notified_commit = False\<rparr>"

text \<open>The reading of the specification's scenario: 35.0 degrees from \<open>temperature_den\<close>.\<close>

definition sd_den :: sensor_data where
  "sd_den = \<lparr>sd_sensor_id = ''temperature_den'', sd_name = ''temperature_den'',
             sd_location = ''unknown'', sd_sensor_type = ''temperature'', sd_value = 35,
             sd_unit = JStr ''C'', sd_timestamp = Some 0\<rparr>"


text \<open>
  The same reading with the fallback metadata the bus transport derives for it, and the
  registry row the first ingestion of \<open>sd_den\<close> creates.
\<close>

definition sd_den_bus :: sensor_data where
  "sd_den_bus = sd_den\<lparr>sd_name := ''Temperature Sensor'', sd_location := ''Den''\<rparr>"

definition row_den :: sensor where
  "row_den = \<lparr>s_id = 1, s_sensor_id = ''temperature_den'', s_name = ''temperature_den'',
              s_location = ''unknown'', s_sensor_type = ''temperature''\<rparr>"

text \<open>
  A reading of \<open>temperature_den\<close> within the thresholds, carrying the timestamp \<open>t\<close>, and
  the database after five of them are ingested.
\<close>

definition sd_at :: "timestamp \<Rightarrow> sensor_data" where
  "sd_at t = sd_den\<lparr>sd_value := 20, sd_timestamp := Some t\<rparr>"

definition db5 :: database where
  "db5 = ingest_all [(env0, sd_at 3), (env0, sd_at 1), (env0, sd_at 5), (env0, sd_at 2),
                     (env0, sd_at 4)] empty_db"

text \<open>
  The scenario reading as a request body and as a bus message, and the same for a sensor
  type that contains an underscore.
\<close>

definition req_den :: SensorData where
  "req_den = \<lparr>req_sensor_id = ''temperature_den'', req_value = 35, req_unit = Some ''C''\<rparr>"

definition msg_den :: mqtt_message where
  "msg_den = \<lparr>topic = ''sensors/temperature/den'',
               payload = Some (JObj [(''value'', JNum 35), (''unit'', JStr ''C'')])\<rparr>"

definition req_x :: SensorData where
  "req_x = \<lparr>req_sensor_id = ''temperature_x_den'', req_value = 35, req_unit = Some ''C''\<rparr>"

definition msg_x :: mqtt_message where
  "msg_x = \<lparr>topic = ''sensors/temperature_x/den'',
             payload = Some (JObj [(''value'', JNum 35), (''unit'', JStr ''C'')])\<rparr>"

section \<open>The alert evaluator\<close>

lemma check_alert_conditions_candidate:
  "check_alert_conditions e db sd =
     (case alert_candidate e sd of
        None \<Rightarrow> (None, db)
      | Some (threshold, message) \<Rightarrow> create_alert e db sd threshold message)"
  by (simp add: check_alert_conditions_def alert_candidate_def Let_def)

lemma candidate_unconfigured:
  "threshold_table (cfg e) (sd_sensor_type sd) = None \<Longrightarrow> alert_candidate e sd = None"
  by (simp add: threshold_table_def alert_candidate_def Let_def split: if_splits)

lemma candidate_within:
  "threshold_table (cfg e) (sd_sensor_type sd) = Some (mn, mx) \<Longrightarrow>
   mn \<le> sd_value sd \<Longrightarrow> sd_value sd \<le> mx \<Longrightarrow> alert_candidate e sd = None"
  by (auto simp: threshold_table_def alert_candidate_def Let_def split: if_splits)

lemma candidate_low:
  "threshold_table (cfg e) (sd_sensor_type sd) = Some (mn, mx) \<Longrightarrow> sd_value sd < mn \<Longrightarrow>
   \<exists>pre mid post. alert_candidate e sd =
      Some (mn, ''Low'' @ pre @ float_str e (sd_value sd) @ mid @ float_str e mn @ post)"
proof (cases "sd_sensor_type sd = ''temperature''")
  case True
  assume "threshold_table (cfg e) (sd_sensor_type sd) = Some (mn, mx)" "sd_value sd < mn"
  with True have "alert_candidate e sd =
      Some (mn, ''Low'' @ '' temperature alert: '' @ float_str e (sd_value sd)
                 @ (degree_sign @ ''C is below threshold of '') @ float_str e mn
                 @ (degree_sign @ ''C''))"
    by (auto simp: threshold_table_def alert_candidate_def Let_def)
  then show ?thesis by blast
next
  case False
  assume "threshold_table (cfg e) (sd_sensor_type sd) = Some (mn, mx)" "sd_value sd < mn"
  with False have "alert_candidate e sd =
      Some (mn, ''Low'' @ '' humidity alert: '' @ float_str e (sd_value sd)
                 @ ''% is below threshold of '' @ float_str e mn @ ''%'')"
    by (auto simp: threshold_table_def alert_candidate_def Let_def split: if_splits)
  then show ?thesis by blast
qed

lemma candidate_high:
  "threshold_table (cfg e) (sd_sensor_type sd) = Some (mn, mx) \<Longrightarrow>
   \<not> sd_value sd < mn \<Longrightarrow> sd_value sd > mx \<Longrightarrow>
   \<exists>pre mid post. alert_candidate e sd =
      Some (mx, ''High'' @ pre @ float_str e (sd_value sd) @ mid @ float_str e mx @ post)"
proof (cases "sd_sensor_type sd = ''temperature''")
  case True
  assume "threshold_table (cfg e) (sd_sensor_type sd) = Some (mn, mx)"
    "\<not> sd_value sd < mn" "sd_value sd > mx"
  with True have "alert_candidate e sd =
      Some (mx, ''High'' @ '' temperature alert: '' @ float_str e (sd_value sd)
                 @ (degree_sign @ ''C is above threshold of '') @ float_str e mx
                 @ (degree_sign @ ''C''))"
    by (auto simp: threshold_table_def alert_candidate_def Let_def)
  then show ?thesis by blast
next
  case False
  assume "threshold_table (cfg e) (sd_sensor_type sd) = Some (mn, mx)"
    "\<not> sd_value sd < mn" "sd_value sd > mx"
  with False have "alert_candidate e sd =
      Some (mx, ''High'' @ '' humidity alert: '' @ float_str e (sd_value sd)
                 @ ''% is above threshold of '' @ float_str e mx @ ''%'')"
    by (auto simp: threshold_table_def alert_candidate_def Let_def split: if_splits)
  then show ?thesis by blast
qed

text \<open>
  Claim C1. \<open>check_alert_conditions\<close> calls \<open>create_alert\<close> at most once, with the
  candidate (threshold, message). For a sensor type with a configured pair (min, max)
  there is a candidate exactly when the value is below min or above max; a value equal
  to a bound or between the bounds gives none; the message of a candidate names the
  direction (Low or High) first, then the observed value, then the threshold that was
  crossed. For a sensor type without a configured pair there is no candidate and the
  check returns without an exception and without touching the database.
\<close>

theorem evaluate_thresholds:
  "check_alert_conditions e db sd =
     (case alert_candidate e sd of
        None \<Rightarrow> (None, db)
      | Some (threshold, message) \<Rightarrow> create_alert e db sd threshold message)
   \<and> (case threshold_table (cfg e) (sd_sensor_type sd) of
        None \<Rightarrow> alert_candidate e sd = None \<and> check_alert_conditions e db sd = (None, db)
      | Some (mn, mx) \<Rightarrow>
          (alert_candidate e sd \<noteq> None \<longleftrightarrow> sd_value sd < mn \<or> sd_value sd > mx)
          \<and> (mn \<le> sd_value sd \<and> sd_value sd \<le> mx \<longrightarrow> alert_candidate e sd = None)
          \<and> (sd_value sd < mn \<longrightarrow>
                (\<exists>pre mid post. alert_candidate e sd =
                   Some (mn, ''Low'' @ pre @ float_str e (sd_value sd) @ mid
                               @ float_str e mn @ post)))
          \<and> (\<not> sd_value sd < mn \<and> sd_value sd > mx \<longrightarrow>
                (\<exists>pre mid post. alert_candidate e sd =
                   Some (mx, ''High'' @ pre @ float_str e (sd_value sd) @ mid
                               @ float_str e mx @ post))))"
proof (rule conjI)
  show "check_alert_conditions e db sd =
     (case alert_candidate e sd of
        None \<Rightarrow> (None, db)
      | Some (threshold, message) \<Rightarrow> create_alert e db sd threshold message)"
    by (rule check_alert_conditions_candidate)
next
  show "case threshold_table (cfg e) (sd_sensor_type sd) of
        None \<Rightarrow> alert_candidate e sd = None \<and> check_alert_conditions e db sd = (None, db)
      | Some (mn, mx) \<Rightarrow>
          (alert_candidate e sd \<noteq> None \<longleftrightarrow> sd_value sd < mn \<or> sd_value sd > mx)
          \<and> (mn \<le> sd_value sd \<and> sd_value sd \<le> mx \<longrightarrow> alert_candidate e sd = None)
          \<and> (sd_value sd < mn \<longrightarrow>
                (\<exists>pre mid post. alert_candidate e sd =
                   Some (mn, ''Low'' @ pre @ float_str e (sd_value sd) @ mid
                               @ float_str e mn @ post)))
          \<and> (\<not> sd_value sd < mn \<and> sd_value sd > mx \<longrightarrow>
                (\<exists>pre mid post. alert_candidate e sd =
                   Some (mx, ''High'' @ pre @ float_str e (sd_value sd) @ mid
                               @ float_str e mx @ post)))"
  proof (cases "threshold_table (cfg e) (sd_sensor_type sd)")
    case None
    then show ?thesis
      by (simp add: candidate_unconfigured check_alert_conditions_candidate)
  next
    case (Some p)
    obtain mn mx where p: "p = (mn, mx)" by (cases p)
    have tt: "threshold_table (cfg e) (sd_sensor_type sd) = Some (mn, mx)"
      using Some p by simp
    have a: "alert_candidate e sd \<noteq> None \<longleftrightarrow> sd_value sd < mn \<or> sd_value sd > mx"
      using candidate_within[OF tt] candidate_low[OF tt] candidate_high[OF tt]
      by (metis not_less option.distinct(1))
    have b: "mn \<le> sd_value sd \<and> sd_value sd \<le> mx \<longrightarrow> alert_candidate e sd = None"
      using candidate_within[OF tt] by blast
    show ?thesis
      unfolding tt option.case prod.case
      using a b candidate_low[OF tt] candidate_high[OF tt] by blast
  qed
qed

text \<open>
  With the default thresholds: 35.0 degrees gives a candidate that reads High, 35.0,
  30.0 in that order; 0.0 degrees one that reads Low, 0.0, 10.0; the bounds 30.0 and
  10.0 themselves, and a humidity of 50.0, give none; neither does a sensor type
  without thresholds, for which the check returns normally.
\<close>

theorem evaluate_thresholds_witness:
  "threshold_table (cfg env0) ''temperature'' = Some (10, 30)
   \<and> threshold_table (cfg env0) ''humidity'' = Some (20, 80)
   \<and> threshold_table (cfg env0) ''pressure'' = None
   \<and> (\<exists>pre mid post. alert_candidate env0 sd_den =
         Some (30, ''High'' @ pre @ ''35.0'' @ mid @ ''30.0'' @ post))
   \<and> (\<exists>pre mid post. alert_candidate env0 (sd_den\<lparr>sd_value := 0\<rparr>) =
         Some (10, ''Low'' @ pre @ ''0.0'' @ mid @ ''10.0'' @ post))
   \<and> alert_candidate env0 (sd_den\<lparr>sd_value := 30\<rparr>) = None
   \<and> alert_candidate env0 (sd_den\<lparr>sd_value := 10\<rparr>) = None
   \<and> alert_candidate env0 (sd_den\<lparr>sd_sensor_type := ''humidity'', sd_value := 50\<rparr>) = None
   \<and> alert_candidate env0 (sd_den\<lparr>sd_sensor_type := ''pressure''\<rparr>) = None
   \<and> check_alert_conditions env0 empty_db (sd_den\<lparr>sd_sensor_type := ''pressure''\<rparr>)
        = (None, empty_db)"
proof -
  have tt: "threshold_table (cfg env0) ''temperature'' = Some (10, 30)"
    "threshold_table (cfg env0) ''humidity'' = Some (20, 80)"
    "threshold_table (cfg env0) ''pressure'' = None"
    by (simp_all add: threshold_table_def env0_def default_settings_def)
  have ty: "sd_sensor_type sd_den = ''temperature''" by (simp add: sd_den_def)
  have v: "sd_value sd_den = 35" by (simp add: sd_den_def)
  have fs: "float_str env0 35 = ''35.0''" "float_str env0 30 = ''30.0''"
    "float_str env0 10 = ''10.0''" "float_str env0 0 = ''0.0''"
    by (simp_all add: env0_def)
  have hi: "\<exists>pre mid post. alert_candidate env0 sd_den =
         Some (30, ''High'' @ pre @ ''35.0'' @ mid @ ''30.0'' @ post)"
  proof -
    from evaluate_thresholds[of env0 empty_db sd_den]
    have "\<not> sd_value sd_den < 10 \<and> sd_value sd_den > 30 \<longrightarrow>
            (\<exists>pre mid post. alert_candidate env0 sd_den =
               Some (30, ''High'' @ pre @ float_str env0 (sd_value sd_den) @ mid
                           @ float_str env0 30 @ post))"
      unfolding ty tt option.case prod.case by blast
    then show ?thesis unfolding v fs by simp
  qed
  have lo: "\<exists>pre mid post. alert_candidate env0 (sd_den\<lparr>sd_value := 0\<rparr>) =
         Some (10, ''Low'' @ pre @ ''0.0'' @ mid @ ''10.0'' @ post)"
  proof -
    have s: "sd_sensor_type (sd_den\<lparr>sd_value := 0\<rparr>) = ''temperature''"
      "sd_value (sd_den\<lparr>sd_value := 0\<rparr>) = 0"
      by (simp_all add: sd_den_def)
    from evaluate_thresholds[of env0 empty_db "sd_den\<lparr>sd_value := 0\<rparr>"]
    have "sd_value (sd_den\<lparr>sd_value := 0\<rparr>) < 10 \<longrightarrow>
            (\<exists>pre mid post. alert_candidate env0 (sd_den\<lparr>sd_value := 0\<rparr>) =
               Some (10, ''Low'' @ pre @ float_str env0 (sd_value (sd_den\<lparr>sd_value := 0\<rparr>)) @ mid
                           @ float_str env0 10 @ post))"
      unfolding s(1) tt option.case prod.case by blast
    then show ?thesis unfolding s(2) fs by simp
  qed
  have within: "alert_candidate env0 sd = None"
    if "threshold_table (cfg env0) (sd_sensor_type sd) = Some (mn, mx)"
      "mn \<le> sd_value sd" "sd_value sd \<le> mx" for sd mn mx
    using evaluate_thresholds[of env0 empty_db sd] that by simp
  have b30: "alert_candidate env0 (sd_den\<lparr>sd_value := 30\<rparr>) = None"
    by (rule within[of _ 10 30]) (simp_all add: tt sd_den_def)
  have b10: "alert_candidate env0 (sd_den\<lparr>sd_value := 10\<rparr>) = None"
    by (rule within[of _ 10 30]) (simp_all add: tt sd_den_def)
  have h50: "alert_candidate env0 (sd_den\<lparr>sd_sensor_type := ''humidity'', sd_value := 50\<rparr>) = None"
    by (rule within[of _ 20 80]) (simp_all add: tt)
  have pr: "alert_candidate env0 (sd_den\<lparr>sd_sensor_type := ''pressure''\<rparr>) = None
      \<and> check_alert_conditions env0 empty_db (sd_den\<lparr>sd_sensor_type := ''pressure''\<rparr>)
        = (None, empty_db)"
    using evaluate_thresholds[of env0 empty_db "sd_den\<lparr>sd_sensor_type := ''pressure''\<rparr>"]
    by (simp add: tt)
  show ?thesis using tt hi lo b30 b10 h50 pr by blast
qed

section \<open>What one call of the gateway does to the tables\<close>

lemma query_sensor_first_None:
  "query_sensor_first sid db = None \<longleftrightarrow> sid \<notin> set (map s_sensor_id (sensors db))"
  by (auto simp: query_sensor_first_def find_None_iff)

lemma recent_alert_cong:
  "alerts db' = alerts db \<Longrightarrow> recent_alert e sid db' = recent_alert e sid db"
  by (simp add: recent_alert_def)

lemma resolve_sensor_frame:
  "alerts (snd (resolve_sensor e sd db)) = alerts db"
  "sensor_readings (snd (resolve_sensor e sd db)) = sensor_readings db"
  by (simp_all add: resolve_sensor_def commit_sensor_def split: option.splits)

lemma resolve_sensor_ok:
  "fst (resolve_sensor e sd db) = None \<longleftrightarrow> registry_ok e sd db"
proof (cases "query_sensor_first (sd_sensor_id sd) db")
  case None
  then have "sd_sensor_id sd \<notin> set (map s_sensor_id (sensors db))"
    by (simp add: query_sensor_first_None)
  with None show ?thesis
    by (simp add: resolve_sensor_def registry_ok_def commit_sensor_def)
next
  case (Some s)
  then show ?thesis
    by (simp add: resolve_sensor_def registry_ok_def)
qed

lemma append_reading_frame:
  "alerts (snd (append_reading e sd db)) = alerts db"
  "sensors (snd (append_reading e sd db)) = sensors db"
  by (simp_all add: append_reading_def Let_def)

lemma append_reading_ok:
  "fst (append_reading e sd db) = None \<longleftrightarrow> \<not> fail_reading_commit e"
  by (simp add: append_reading_def Let_def)

lemma create_alert_frame:
  "sensors (snd (create_alert e db sd t m)) = sensors db"
  "sensor_readings (snd (create_alert e db sd t m)) = sensor_readings db"
  by (simp_all add: create_alert_def Let_def split: option.splits)

lemma check_alert_conditions_frame:
  "sensors (snd (check_alert_conditions e db sd)) = sensors db"
  "sensor_readings (snd (check_alert_conditions e db sd)) = sensor_readings db"
  by (simp_all add: check_alert_conditions_candidate create_alert_frame split: option.splits)

lemma new_alert_cong:
  "alerts db' = alerts db \<Longrightarrow> new_alert e db' sd t m = new_alert e db sd t m"
  by (simp add: new_alert_def)

lemma new_alert_sel [simp]:
  "a_sensor_id (new_alert e db sd t m) = sd_sensor_id sd"
  "a_timestamp (new_alert e db sd t m) = clk_create e"
  "a_value (new_alert e db sd t m) = sd_value sd"
  "a_threshold (new_alert e db sd t m) = t"
  "a_message (new_alert e db sd t m) = m"
  "a_was_notified (new_alert e db sd t m) = 0"
  by (simp_all add: new_alert_def)

text \<open>The alert table after one call of the gateway.\<close>

lemma create_alert_alerts:
  "alerts (snd (create_alert e db sd t m)) =
     (if \<not> fail_alert_query e \<and> recent_alert e (sd_sensor_id sd) db = None
         \<and> \<not> fail_alert_commit e
      then alerts db @
             [(new_alert e db sd t m)\<lparr>a_was_notified := (if fail_notified_commit e then 0 else 1)\<rparr>]
      else alerts db)"
  by (simp add: create_alert_def new_alert_def Let_def split: option.splits)

lemma process_db_after:
  "db_after (process_sensor_data e sd db) =
     (if registry_ok e sd db then
        if fail_reading_commit e then snd (resolve_sensor e sd db)
        else snd (check_alert_conditions e
                    (snd (append_reading e sd (snd (resolve_sensor e sd db)))) sd)
      else snd (resolve_sensor e sd db))"
proof -
  obtain r1 d1 where r: "resolve_sensor e sd db = (r1, d1)" by (cases "resolve_sensor e sd db")
  obtain r2 d2 where a: "append_reading e sd d1 = (r2, d2)" by (cases "append_reading e sd d1")
  obtain r3 d3 where c: "check_alert_conditions e d2 sd = (r3, d3)"
    by (cases "check_alert_conditions e d2 sd")
  have r1: "r1 = None \<longleftrightarrow> registry_ok e sd db" using resolve_sensor_ok[of e sd db] r by simp
  have r2: "r2 = None \<longleftrightarrow> \<not> fail_reading_commit e" using append_reading_ok[of e sd d1] a by simp
  have d2: "fail_reading_commit e \<Longrightarrow> d2 = d1" using a by (simp add: append_reading_def Let_def)
  show ?thesis
    using r1 r2 d2 by (cases r1; cases r2; cases r3) (simp_all add: process_sensor_data_def r a c)
qed

lemma ingest_alerts:
  "alerts (ingest e sd db) =
     (if append_ok e sd db \<and> \<not> fail_alert_query e
         \<and> recent_alert e (sd_sensor_id sd) db = None \<and> \<not> fail_alert_commit e
      then (case alert_candidate e sd of
              None \<Rightarrow> alerts db
            | Some (t, m) \<Rightarrow> alerts db @
                [(new_alert e db sd t m)\<lparr>a_was_notified := (if fail_notified_commit e then 0 else 1)\<rparr>])
      else alerts db)"
proof -
  let ?d2 = "snd (append_reading e sd (snd (resolve_sensor e sd db)))"
  have al: "alerts ?d2 = alerts db"
    by (simp add: append_reading_frame resolve_sensor_frame)
  have ra: "recent_alert e (sd_sensor_id sd) ?d2 = recent_alert e (sd_sensor_id sd) db"
    by (rule recent_alert_cong[OF al])
  have na: "\<And>t m. new_alert e ?d2 sd t m = new_alert e db sd t m"
    by (rule new_alert_cong[OF al])
  show ?thesis
    by (simp add: ingest_def process_db_after append_ok_def resolve_sensor_frame
        check_alert_conditions_candidate create_alert_alerts al ra na split: option.splits)
qed

section \<open>Alert deduplication\<close>













section \<open>Failures inside the gateway\<close>

lemma process_raised: "raised (process_sensor_data e sd db) = None"
  by (simp add: process_sensor_data_def split: prod.splits option.splits)

lemma process_printed:
  "printed (process_sensor_data e sd db) =
     (if registry_ok e sd db then
        if fail_reading_commit e then [ErrorStoring StorageError]
        else (case fst (check_alert_conditions e
                      (snd (append_reading e sd (snd (resolve_sensor e sd db)))) sd) of
                None \<Rightarrow> []
              | Some err \<Rightarrow> [ErrorCheckingAlerts err])
      else (case fst (resolve_sensor e sd db) of
              None \<Rightarrow> [] | Some err \<Rightarrow> [ErrorStoring err]))"
proof -
  obtain r1 d1 where r: "resolve_sensor e sd db = (r1, d1)" by (cases "resolve_sensor e sd db")
  obtain r2 d2 where a: "append_reading e sd d1 = (r2, d2)" by (cases "append_reading e sd d1")
  obtain r3 d3 where c: "check_alert_conditions e d2 sd = (r3, d3)"
    by (cases "check_alert_conditions e d2 sd")
  have r1: "r1 = None \<longleftrightarrow> registry_ok e sd db" using resolve_sensor_ok[of e sd db] r by simp
  have r2: "r2 = None \<longleftrightarrow> \<not> fail_reading_commit e" using append_reading_ok[of e sd d1] a by simp
  have r2': "fail_reading_commit e \<Longrightarrow> r2 = Some StorageError"
    using a by (simp add: append_reading_def Let_def)
  show ?thesis
    using r1 r2 r2' by (cases r1; cases r2; cases r3) (simp_all add: process_sensor_data_def r a c)
qed

lemma new_reading_cong:
  "sensor_readings db' = sensor_readings db \<Longrightarrow> new_reading e sd db' = new_reading e sd db"
  by (simp add: new_reading_def)

lemma ingest_readings:
  "sensor_readings (ingest e sd db) =
     (if append_ok e sd db then sensor_readings db @ [new_reading e sd db]
      else sensor_readings db)"
proof -
  have "new_reading e sd (snd (resolve_sensor e sd db)) = new_reading e sd db"
    by (rule new_reading_cong) (simp add: resolve_sensor_frame)
  then show ?thesis
    by (simp add: ingest_def process_db_after append_ok_def resolve_sensor_frame
        check_alert_conditions_frame append_reading_def Let_def)
qed

text \<open>
  Claim C3 says that the error of a failed append is surfaced. It is not: for a
  registered sensor and a reading whose commit raises, no reading is stored and the
  call returns normally, as it does when the commit succeeds; the caller cannot tell
  the two apart.
\<close>

theorem append_error_not_surfaced_counterexample:
  "fail_reading_commit (env0\<lparr>fail_reading_commit := True\<rparr>)
   \<and> sensor_readings (ingest (env0\<lparr>fail_reading_commit := True\<rparr>) (sd_at 1)
         (ingest env0 sd_den empty_db)) = sensor_readings (ingest env0 sd_den empty_db)
   \<and> raised (process_sensor_data (env0\<lparr>fail_reading_commit := True\<rparr>) (sd_at 1)
         (ingest env0 sd_den empty_db)) = None
   \<and> raised (process_sensor_data env0 (sd_at 1) (ingest env0 sd_den empty_db)) = None"
  by (simp add: process_raised ingest_readings append_ok_def env0_def)

text \<open>
  Claim C3, amended. When the commit of the reading raises (the registry step before it
  having succeeded), no reading is stored, the alert check does not run (the alert
  table is as before), and the outer handler catches the error and prints it: no
  exception reaches the caller. When the reading is committed and the alert check then
  raises, the reading stays in the table, no exception leaves the call and the only
  line printed is the one of the alert check, not a storing error.
\<close>

theorem append_then_alert_stage:
  "(registry_ok e sd db \<and> fail_reading_commit e \<longrightarrow>
      sensor_readings (ingest e sd db) = sensor_readings db
      \<and> alerts (ingest e sd db) = alerts db
      \<and> raised (process_sensor_data e sd db) = None
      \<and> printed (process_sensor_data e sd db) = [ErrorStoring StorageError])
   \<and> (append_ok e sd db
        \<and> fst (check_alert_conditions e
                  (snd (append_reading e sd (snd (resolve_sensor e sd db)))) sd) = Some err \<longrightarrow>
      sensor_readings (ingest e sd db) = sensor_readings db @ [new_reading e sd db]
      \<and> raised (process_sensor_data e sd db) = None
      \<and> printed (process_sensor_data e sd db) = [ErrorCheckingAlerts err])"
  by (simp add: ingest_readings ingest_alerts process_raised process_printed append_ok_def)

text \<open>
  The scenario reading with the reading's commit failing, and with the alert's commit
  failing.
\<close>

theorem append_then_alert_stage_witness:
  "registry_ok (env0\<lparr>fail_reading_commit := True\<rparr>) sd_den empty_db
   \<and> fail_reading_commit (env0\<lparr>fail_reading_commit := True\<rparr>)
   \<and> sensor_readings (ingest (env0\<lparr>fail_reading_commit := True\<rparr>) sd_den empty_db) = []
   \<and> alerts (ingest (env0\<lparr>fail_reading_commit := True\<rparr>) sd_den empty_db) = []
   \<and> raised (process_sensor_data (env0\<lparr>fail_reading_commit := True\<rparr>) sd_den empty_db) = None
   \<and> printed (process_sensor_data (env0\<lparr>fail_reading_commit := True\<rparr>) sd_den empty_db)
       = [ErrorStoring StorageError]
   \<and> append_ok (env0\<lparr>fail_alert_commit := True\<rparr>) sd_den empty_db
   \<and> fst (check_alert_conditions (env0\<lparr>fail_alert_commit := True\<rparr>)
            (snd (append_reading (env0\<lparr>fail_alert_commit := True\<rparr>) sd_den
               (snd (resolve_sensor (env0\<lparr>fail_alert_commit := True\<rparr>) sd_den empty_db))))
            sd_den) = Some StorageError
   \<and> map r_value (sensor_readings (ingest (env0\<lparr>fail_alert_commit := True\<rparr>) sd_den empty_db))
       = [35]
   \<and> raised (process_sensor_data (env0\<lparr>fail_alert_commit := True\<rparr>) sd_den empty_db) = None
   \<and> printed (process_sensor_data (env0\<lparr>fail_alert_commit := True\<rparr>) sd_den empty_db)
       = [ErrorCheckingAlerts StorageError]"
proof -
  let ?e1 = "env0\<lparr>fail_reading_commit := True\<rparr>"
  let ?e2 = "env0\<lparr>fail_alert_commit := True\<rparr>"
  have p1: "registry_ok ?e1 sd_den empty_db" "fail_reading_commit ?e1"
    by (simp_all add: registry_ok_def env0_def)
  have p2: "append_ok ?e2 sd_den empty_db"
    by (simp add: append_ok_def registry_ok_def env0_def)
  have p3: "fst (check_alert_conditions ?e2
            (snd (append_reading ?e2 sd_den (snd (resolve_sensor ?e2 sd_den empty_db))))
            sd_den) = Some StorageError"
    by (simp add: check_alert_conditions_def create_alert_def recent_alert_def
        append_reading_frame resolve_sensor_frame empty_db_def env0_def sd_den_def
        default_settings_def Let_def)
  have e: "sensor_readings empty_db = []" "alerts empty_db = []"
    by (simp_all add: empty_db_def)
  have nr: "r_value (new_reading ?e2 sd_den empty_db) = 35"
    by (simp add: new_reading_def sd_den_def)
  note a = append_then_alert_stage[of ?e1 sd_den empty_db StorageError]
  note b = append_then_alert_stage[of ?e2 sd_den empty_db StorageError]
  have 1: "sensor_readings (ingest ?e1 sd_den empty_db) = []
      \<and> alerts (ingest ?e1 sd_den empty_db) = []
      \<and> raised (process_sensor_data ?e1 sd_den empty_db) = None
      \<and> printed (process_sensor_data ?e1 sd_den empty_db) = [ErrorStoring StorageError]"
    using a p1 e by simp
  have 2: "map r_value (sensor_readings (ingest ?e2 sd_den empty_db)) = [35]
      \<and> raised (process_sensor_data ?e2 sd_den empty_db) = None
      \<and> printed (process_sensor_data ?e2 sd_den empty_db) = [ErrorCheckingAlerts StorageError]"
    using b p2 p3 e nr by simp
  show ?thesis
    using 1 2 p1 p2 p3 by blast
qed


lemma resolve_sensor_error:
  "\<not> registry_ok e sd db \<Longrightarrow> fst (resolve_sensor e sd db) = Some StorageError"
proof (cases "query_sensor_first (sd_sensor_id sd) db")
  case None
  assume f: "\<not> registry_ok e sd db"
  have "sd_sensor_id sd \<notin> set (map s_sensor_id (sensors db))"
    using None by (simp add: query_sensor_first_None)
  with None f show ?thesis
    by (auto simp: resolve_sensor_def registry_ok_def commit_sensor_def)
next
  case (Some s)
  assume "\<not> registry_ok e sd db"
  with Some show ?thesis
    by (simp add: resolve_sensor_def registry_ok_def)
qed

text \<open>
  Claim C4 says that a storage error of the append reaches the caller of the gateway.
  It does not: with the reading's commit failing, nothing is stored and the call returns
  normally, no exception escaping.
\<close>

theorem storage_error_swallowed_counterexample:
  "fail_reading_commit (env0\<lparr>fail_reading_commit := True\<rparr>)
   \<and> sensor_readings (db_after
        (process_sensor_data (env0\<lparr>fail_reading_commit := True\<rparr>) sd_den empty_db)) = []
   \<and> raised (process_sensor_data (env0\<lparr>fail_reading_commit := True\<rparr>) sd_den empty_db) = None"
  by (simp add: process_sensor_data_def resolve_sensor_def append_reading_def
      query_sensor_first_def commit_sensor_def empty_db_def env0_def sd_den_def Let_def)

text \<open>
  Claim C4, amended. When the registry step or the append raises a storage error, the
  gateway catches it: no exception reaches the caller, the error is printed, and neither
  a reading nor an alert is stored for that reading. The next call, when its own storage
  operations succeed, stores its reading.
\<close>

theorem storage_error_logged_not_raised:
  "\<not> append_ok e sd db \<longrightarrow>
     raised (process_sensor_data e sd db) = None
     \<and> printed (process_sensor_data e sd db) = [ErrorStoring StorageError]
     \<and> sensor_readings (ingest e sd db) = sensor_readings db
     \<and> alerts (ingest e sd db) = alerts db
     \<and> (append_ok e' sd' (ingest e sd db) \<longrightarrow>
          sensor_readings (ingest e' sd' (ingest e sd db)) =
            sensor_readings db @ [new_reading e' sd' db])"
proof
  assume f: "\<not> append_ok e sd db"
  have r: "sensor_readings (ingest e sd db) = sensor_readings db"
    using f by (simp add: ingest_readings)
  have n: "new_reading e' sd' (ingest e sd db) = new_reading e' sd' db"
    by (rule new_reading_cong[OF r])
  have p: "printed (process_sensor_data e sd db) = [ErrorStoring StorageError]"
    using f resolve_sensor_error[of e sd db]
    by (auto simp: process_printed append_ok_def)
  show "raised (process_sensor_data e sd db) = None
     \<and> printed (process_sensor_data e sd db) = [ErrorStoring StorageError]
     \<and> sensor_readings (ingest e sd db) = sensor_readings db
     \<and> alerts (ingest e sd db) = alerts db
     \<and> (append_ok e' sd' (ingest e sd db) \<longrightarrow>
          sensor_readings (ingest e' sd' (ingest e sd db)) =
            sensor_readings db @ [new_reading e' sd' db])"
    using f r n p by (simp add: process_raised ingest_alerts ingest_readings)
qed

text \<open>The scenario reading with the commit failing, then once more with the storage back.\<close>

theorem storage_error_logged_not_raised_witness:
  "\<not> append_ok (env0\<lparr>fail_reading_commit := True\<rparr>) sd_den empty_db
   \<and> raised (process_sensor_data (env0\<lparr>fail_reading_commit := True\<rparr>) sd_den empty_db) = None
   \<and> printed (process_sensor_data (env0\<lparr>fail_reading_commit := True\<rparr>) sd_den empty_db)
        = [ErrorStoring StorageError]
   \<and> append_ok env0 sd_den (ingest (env0\<lparr>fail_reading_commit := True\<rparr>) sd_den empty_db)
   \<and> sensor_readings (ingest env0 sd_den
        (ingest (env0\<lparr>fail_reading_commit := True\<rparr>) sd_den empty_db))
        = [new_reading env0 sd_den empty_db]"
proof -
  let ?e = "env0\<lparr>fail_reading_commit := True\<rparr>"
  have p1: "\<not> append_ok ?e sd_den empty_db"
    by (simp add: append_ok_def env0_def)
  have p2: "append_ok env0 sd_den (ingest ?e sd_den empty_db)"
    by (simp add: append_ok_def registry_ok_def env0_def)
  have e: "sensor_readings empty_db = []" by (simp add: empty_db_def)
  show ?thesis
    using storage_error_logged_not_raised[of ?e sd_den empty_db env0 sd_den] p1 p2 e by simp
qed

section \<open>The notified flag\<close>

lemma ingest_alerts_new:
  "\<exists>new. alerts (ingest e sd db) = alerts db @ new \<and> length new \<le> 1
         \<and> (\<not> fail_notified_commit e \<longrightarrow> all_notified new)"
proof (cases "alerts (ingest e sd db) = alerts db")
  case True
  then have "alerts (ingest e sd db) = alerts db @ [] \<and> length ([]::alert list) \<le> 1
      \<and> (\<not> fail_notified_commit e \<longrightarrow> all_notified [])"
    by (simp add: all_notified_def)
  then show ?thesis by blast
next
  case False
  then obtain t m where
    "alerts (ingest e sd db) = alerts db @
       [(new_alert e db sd t m)\<lparr>a_was_notified := (if fail_notified_commit e then 0 else 1)\<rparr>]"
    by (auto simp: ingest_alerts split: if_splits option.splits)
  then have "alerts (ingest e sd db) = alerts db @
       [(new_alert e db sd t m)\<lparr>a_was_notified := (if fail_notified_commit e then 0 else 1)\<rparr>]
     \<and> length [(new_alert e db sd t m)\<lparr>a_was_notified := (if fail_notified_commit e then 0 else 1)\<rparr>] \<le> 1
     \<and> (\<not> fail_notified_commit e \<longrightarrow> all_notified
           [(new_alert e db sd t m)\<lparr>a_was_notified := (if fail_notified_commit e then 0 else 1)\<rparr>])"
    by (simp add: all_notified_def)
  then show ?thesis by blast
qed

lemma ingest_all_notified:
  "all_notified (alerts db) \<Longrightarrow> \<not> fail_notified_commit e \<Longrightarrow> all_notified (alerts (ingest e sd db))"
  using ingest_alerts_new[of e sd db] by (auto simp: all_notified_def)

lemma ingest_all_all_notified:
  "all_notified (alerts db) \<Longrightarrow> \<forall>(e, sd) \<in> set xs. \<not> fail_notified_commit e \<Longrightarrow>
   all_notified (alerts (ingest_all xs db))"
proof (induction xs arbitrary: db)
  case Nil
  then show ?case by simp
next
  case (Cons x xs)
  obtain e sd where x: "x = (e, sd)" by (cases x)
  have "all_notified (alerts (ingest e sd db))"
    using Cons.prems x by (simp add: ingest_all_notified)
  then show ?case
    using Cons.IH[of "ingest e sd db"] Cons.prems(2) x by simp
qed

text \<open>
  Claim C6 says that after any call of the gateway every stored alert has its flag set.
  The alert is committed with the flag 0 and the flag 1 is stored by a second commit:
  when that second commit raises, the call still completes (the inner handler catches
  the exception) and the alert stays in the table with the flag 0.
\<close>

theorem unnotified_alert_counterexample:
  "raised (process_sensor_data (env0\<lparr>fail_notified_commit := True\<rparr>) sd_den empty_db) = None
   \<and> map a_was_notified (alerts (ingest (env0\<lparr>fail_notified_commit := True\<rparr>) sd_den empty_db))
       = [0]"
  by (simp add: process_raised ingest_alerts append_ok_def registry_ok_def recent_alert_def
      alert_candidate_def query_sensor_first_def empty_db_def env0_def sd_den_def
      default_settings_def)

text \<open>
  Claim C6, amended. An alert is built with the flag 0; once its commit has succeeded,
  \<open>create_alert\<close> sets the flag to 1 in the same call under no condition (the source
  attempts no notification: the call is commented out) and stores it with a second
  commit. A call of the gateway only appends to the alert table, at most one alert, and
  leaves the alerts already there as they are. So when the flag commit does not raise in
  any call of a sequence, every alert stored has the flag 1 afterwards if that held
  before.
\<close>

theorem notified_flag_flip:
  "(\<not> fail_alert_query e \<and> recent_alert e (sd_sensor_id sd) db = None
      \<and> \<not> fail_alert_commit e \<and> \<not> fail_notified_commit e \<longrightarrow>
      create_alert e db sd t m =
        (None, db\<lparr>alerts := alerts db @ [(new_alert e db sd t m)\<lparr>a_was_notified := 1\<rparr>]\<rparr>))
   \<and> a_was_notified (new_alert e db sd t m) = 0
   \<and> (\<exists>new. alerts (ingest e sd db) = alerts db @ new \<and> length new \<le> 1
          \<and> (\<not> fail_notified_commit e \<longrightarrow> all_notified new))
   \<and> (all_notified (alerts db) \<and> (\<forall>(e, sd) \<in> set xs. \<not> fail_notified_commit e) \<longrightarrow>
        all_notified (alerts (ingest_all xs db)))"
proof (intro conjI impI)
  assume "\<not> fail_alert_query e \<and> recent_alert e (sd_sensor_id sd) db = None
      \<and> \<not> fail_alert_commit e \<and> \<not> fail_notified_commit e"
  then show "create_alert e db sd t m =
        (None, db\<lparr>alerts := alerts db @ [(new_alert e db sd t m)\<lparr>a_was_notified := 1\<rparr>]\<rparr>)"
    by (simp add: create_alert_def Let_def)
next
  show "a_was_notified (new_alert e db sd t m) = 0" by simp
next
  show "\<exists>new. alerts (ingest e sd db) = alerts db @ new \<and> length new \<le> 1
          \<and> (\<not> fail_notified_commit e \<longrightarrow> all_notified new)"
    by (rule ingest_alerts_new)
next
  assume "all_notified (alerts db) \<and> (\<forall>(e, sd) \<in> set xs. \<not> fail_notified_commit e)"
  then show "all_notified (alerts (ingest_all xs db))"
    using ingest_all_all_notified by blast
qed

text \<open>The scenario reading from the empty database, with no storage failure.\<close>

theorem notified_flag_flip_witness:
  "\<not> fail_alert_query env0 \<and> recent_alert env0 (sd_sensor_id sd_den) empty_db = None
   \<and> \<not> fail_alert_commit env0 \<and> \<not> fail_notified_commit env0
   \<and> map a_was_notified (alerts (snd (create_alert env0 empty_db sd_den 30 ''High''))) = [1]
   \<and> all_notified (alerts empty_db)
   \<and> all_notified (alerts (ingest_all [(env0, sd_den)] empty_db))
   \<and> length (alerts (ingest_all [(env0, sd_den)] empty_db)) = 1"
proof -
  have pre: "\<not> fail_alert_query env0" "recent_alert env0 (sd_sensor_id sd_den) empty_db = None"
    "\<not> fail_alert_commit env0" "\<not> fail_notified_commit env0" "all_notified (alerts empty_db)"
    by (simp_all add: env0_def recent_alert_def empty_db_def all_notified_def)
  have e: "alerts empty_db = []" by (simp add: empty_db_def)
  note w = notified_flag_flip[of env0 sd_den empty_db 30 "''High''" "[(env0, sd_den)]"]
  have 1: "map a_was_notified (alerts (snd (create_alert env0 empty_db sd_den 30 ''High''))) = [1]"
    using w pre e by simp
  have 2: "all_notified (alerts (ingest_all [(env0, sd_den)] empty_db))"
    using w pre by simp
  have 3: "length (alerts (ingest_all [(env0, sd_den)] empty_db)) = 1"
    by (simp add: ingest_alerts append_ok_def registry_ok_def recent_alert_def
      alert_candidate_def query_sensor_first_def empty_db_def env0_def sd_den_def
      default_settings_def)
  show ?thesis using pre 1 2 3 by blast
qed

section \<open>The sensor registry\<close>

lemma ingest_sensors:
  "sensors (ingest e sd db) =
     (if \<not> fail_sensor_query e \<and> query_sensor_first (sd_sensor_id sd) db = None
         \<and> \<not> fail_sensor_commit e
      then sensors db @
             [\<lparr>s_id = next_id (map s_id (sensors db)), s_sensor_id = sd_sensor_id sd,
               s_name = sd_name sd, s_location = sd_location sd,
               s_sensor_type = sd_sensor_type sd\<rparr>]
      else sensors db)"
proof -
  have s: "sensors (ingest e sd db) = sensors (snd (resolve_sensor e sd db))"
    by (simp add: ingest_def process_db_after check_alert_conditions_frame append_reading_frame)
  show ?thesis
  proof (cases "query_sensor_first (sd_sensor_id sd) db")
    case None
    have "sd_sensor_id sd \<notin> set (map s_sensor_id (sensors db))"
      using None by (simp add: query_sensor_first_None)
    with None show ?thesis
      unfolding s by (simp add: resolve_sensor_def commit_sensor_def)
  next
    case (Some r)
    then show ?thesis
      unfolding s by (simp add: resolve_sensor_def)
  qed
qed

lemma ingest_distinct:
  "distinct (map s_sensor_id (sensors db)) \<Longrightarrow>
   distinct (map s_sensor_id (sensors (ingest e sd db)))"
  by (auto simp: ingest_sensors query_sensor_first_None)

lemma find_snoc_Some: "find P xs = Some x \<Longrightarrow> find P (xs @ ys) = Some x"
  by (induction xs) (auto split: if_splits)

lemma ingest_registered:
  "query_sensor_first sid db = Some s \<Longrightarrow> query_sensor_first sid (ingest e sd db) = Some s"
  by (simp add: ingest_sensors query_sensor_first_def find_snoc_Some)

lemma ingest_registers:
  "\<not> fail_sensor_query e \<Longrightarrow> \<not> fail_sensor_commit e \<Longrightarrow>
   query_sensor_first (sd_sensor_id sd) (ingest e sd db) \<noteq> None"
proof (cases "query_sensor_first (sd_sensor_id sd) db")
  case None
  assume "\<not> fail_sensor_query e" "\<not> fail_sensor_commit e"
  with None have "sd_sensor_id sd \<in> set (map s_sensor_id (sensors (ingest e sd db)))"
    by (simp add: ingest_sensors)
  then show ?thesis by (simp add: query_sensor_first_None)
next
  case (Some s)
  then show ?thesis using ingest_registered[of "sd_sensor_id sd" db s e sd] by simp
qed

lemma ingest_prefix:
  "take (length (sensors db)) (sensors (ingest e sd db)) = sensors db"
  by (simp add: ingest_sensors)

lemma ingest_sensors_length: "length (sensors db) \<le> length (sensors (ingest e sd db))"
  by (simp add: ingest_sensors)

lemma ingest_all_distinct:
  "distinct (map s_sensor_id (sensors db)) \<Longrightarrow>
   distinct (map s_sensor_id (sensors (ingest_all xs db)))"
proof (induction xs arbitrary: db)
  case Nil
  then show ?case by simp
next
  case (Cons x xs)
  obtain e sd where x: "x = (e, sd)" by (cases x)
  show ?case using Cons.IH[OF ingest_distinct[OF Cons.prems, of e sd]] x by simp
qed

lemma ingest_all_registered:
  "query_sensor_first sid db = Some s \<Longrightarrow> query_sensor_first sid (ingest_all xs db) = Some s"
proof (induction xs arbitrary: db)
  case Nil
  then show ?case by simp
next
  case (Cons x xs)
  obtain e sd where x: "x = (e, sd)" by (cases x)
  show ?case using Cons.IH[OF ingest_registered[OF Cons.prems, of e sd]] x by simp
qed

lemma ingest_all_prefix:
  "take (length (sensors db)) (sensors (ingest_all xs db)) = sensors db"
proof (induction xs arbitrary: db)
  case Nil
  then show ?case by simp
next
  case (Cons x xs)
  obtain e sd where x: "x = (e, sd)" by (cases x)
  have "take (length (sensors db)) (sensors (ingest_all xs (ingest e sd db)))
      = take (length (sensors db)) (take (length (sensors (ingest e sd db)))
            (sensors (ingest_all xs (ingest e sd db))))"
    using ingest_sensors_length[of db e sd] by (simp add: min_def)
  also have "\<dots> = take (length (sensors db)) (sensors (ingest e sd db))"
    by (simp only: Cons.IH)
  also have "\<dots> = sensors db" by (rule ingest_prefix)
  finally show ?case using x by simp
qed

lemma ingest_all_registers:
  "\<forall>(e, sd) \<in> set xs. sd_sensor_id sd = sid \<Longrightarrow>
   \<exists>(e, sd) \<in> set xs. \<not> fail_sensor_query e \<and> \<not> fail_sensor_commit e \<Longrightarrow>
   query_sensor_first sid (ingest_all xs db) \<noteq> None"
proof (induction xs arbitrary: db)
  case Nil
  then show ?case by simp
next
  case (Cons x xs)
  obtain e sd where x: "x = (e, sd)" by (cases x)
  have sid: "sd_sensor_id sd = sid" using Cons.prems(1) x by simp
  show ?case
  proof (cases "\<not> fail_sensor_query e \<and> \<not> fail_sensor_commit e")
    case True
    then have "query_sensor_first sid (ingest e sd db) \<noteq> None"
      using ingest_registers[of e sd db] sid by simp
    then obtain s where "query_sensor_first sid (ingest e sd db) = Some s" by auto
    then show ?thesis using ingest_all_registered[of sid "ingest e sd db" s xs] x by simp
  next
    case False
    then have "\<exists>(e, sd) \<in> set xs. \<not> fail_sensor_query e \<and> \<not> fail_sensor_commit e"
      using Cons.prems(2) x by auto
    then show ?thesis using Cons.IH[of "ingest e sd db"] Cons.prems(1) x by simp
  qed
qed

lemma sensor_rows_distinct:
  "distinct (map s_sensor_id (sensors db)) \<Longrightarrow> length (sensor_rows sid db) \<le> 1"
proof -
  have "distinct (map s_sensor_id rs) \<Longrightarrow> length (filter (\<lambda>s. s_sensor_id s = sid) rs) \<le> 1" for rs
  proof (induction rs)
    case Nil
    then show ?case by simp
  next
    case (Cons r rs)
    show ?case
    proof (cases "s_sensor_id r = sid")
      case True
      have "s_sensor_id r \<notin> s_sensor_id ` set rs"
        using Cons.prems by simp
      then have "\<forall>x \<in> set rs. s_sensor_id x \<noteq> sid"
        using True by blast
      then have "filter (\<lambda>s. s_sensor_id s = sid) rs = []"
        by (simp add: filter_empty_conv)
      then show ?thesis using True by simp
    next
      case False
      then show ?thesis using Cons by simp
    qed
  qed
  then show "distinct (map s_sensor_id (sensors db)) \<Longrightarrow> length (sensor_rows sid db) \<le> 1"
    by (simp add: sensor_rows_def)
qed

lemma sensor_rows_registered:
  "query_sensor_first sid db \<noteq> None \<Longrightarrow> sensor_rows sid db \<noteq> []"
  by (auto simp: sensor_rows_def query_sensor_first_None filter_empty_conv)

text \<open>
  Claim C8. Start from a registry with one row per identifier and ingest any number of
  readings that name the identifier \<open>sid\<close>, one call after the other. The registry
  still has one row per identifier, so at most one for \<open>sid\<close>, and exactly one as soon as
  the registry step of one of the calls could reach the storage. A sensor registered
  before stays the very same row (name, location and type as they were), whatever
  metadata the readings carry, and no row that was there is changed or removed.
\<close>

theorem registry_idempotent:
  "distinct (map s_sensor_id (sensors db)) \<and> (\<forall>(e, sd) \<in> set xs. sd_sensor_id sd = sid) \<longrightarrow>
     distinct (map s_sensor_id (sensors (ingest_all xs db)))
     \<and> length (sensor_rows sid (ingest_all xs db)) \<le> 1
     \<and> ((\<exists>(e, sd) \<in> set xs. \<not> fail_sensor_query e \<and> \<not> fail_sensor_commit e) \<longrightarrow>
           length (sensor_rows sid (ingest_all xs db)) = 1)
     \<and> (\<forall>s. query_sensor_first sid db = Some s \<longrightarrow>
           query_sensor_first sid (ingest_all xs db) = Some s
           \<and> sensor_rows sid (ingest_all xs db) = [s])
     \<and> take (length (sensors db)) (sensors (ingest_all xs db)) = sensors db"
proof (intro impI)
  assume h: "distinct (map s_sensor_id (sensors db)) \<and> (\<forall>(e, sd) \<in> set xs. sd_sensor_id sd = sid)"
  let ?db = "ingest_all xs db"
  have d: "distinct (map s_sensor_id (sensors ?db))"
    using h ingest_all_distinct by blast
  have le: "length (sensor_rows sid ?db) \<le> 1"
    by (rule sensor_rows_distinct[OF d])
  have one: "length (sensor_rows sid ?db) = 1"
    if "\<exists>(e, sd) \<in> set xs. \<not> fail_sensor_query e \<and> \<not> fail_sensor_commit e"
  proof -
    have "sensor_rows sid ?db \<noteq> []"
      using ingest_all_registers[of xs sid db] h that sensor_rows_registered by blast
    then show ?thesis using le by (cases "sensor_rows sid ?db") simp_all
  qed
  have same: "query_sensor_first sid ?db = Some s \<and> sensor_rows sid ?db = [s]"
    if q: "query_sensor_first sid db = Some s" for s
  proof -
    have q': "query_sensor_first sid ?db = Some s" by (rule ingest_all_registered[OF q])
    then have ne: "sensor_rows sid ?db \<noteq> []" using sensor_rows_registered[of sid ?db] by simp
    then obtain r where r: "sensor_rows sid ?db = [r]"
      using le by (cases "sensor_rows sid ?db") auto
    have "find (\<lambda>s. s_sensor_id s = sid) (sensors ?db) = Some s"
      using q' by (simp add: query_sensor_first_def)
    then have "s \<in> set (sensor_rows sid ?db)"
      by (auto simp: sensor_rows_def find_Some_iff)
    then show ?thesis using q' r by simp
  qed
  show "distinct (map s_sensor_id (sensors ?db))
     \<and> length (sensor_rows sid ?db) \<le> 1
     \<and> ((\<exists>(e, sd) \<in> set xs. \<not> fail_sensor_query e \<and> \<not> fail_sensor_commit e) \<longrightarrow>
           length (sensor_rows sid ?db) = 1)
     \<and> (\<forall>s. query_sensor_first sid db = Some s \<longrightarrow>
           query_sensor_first sid ?db = Some s \<and> sensor_rows sid ?db = [s])
     \<and> take (length (sensors db)) (sensors ?db) = sensors db"
    using d le one same ingest_all_prefix by blast
qed


lemma ingest_den_sensors: "sensors (ingest env0 sd_den empty_db) = [row_den]"
  by (simp add: ingest_sensors query_sensor_first_def empty_db_def env0_def sd_den_def
      row_den_def next_id_def)

text \<open>
  \<open>temperature_den\<close> registered by a first reading, then a reading with other fallback
  metadata: the row of the first reading is the one row.
\<close>

theorem registry_idempotent_witness:
  "distinct (map s_sensor_id (sensors (ingest env0 sd_den empty_db)))
   \<and> sd_sensor_id sd_den_bus = ''temperature_den''
   \<and> sd_name sd_den_bus \<noteq> s_name row_den
   \<and> \<not> fail_sensor_query env0 \<and> \<not> fail_sensor_commit env0
   \<and> query_sensor_first ''temperature_den'' (ingest env0 sd_den empty_db) = Some row_den
   \<and> sensor_rows ''temperature_den''
        (ingest_all [(env0, sd_den_bus)] (ingest env0 sd_den empty_db)) = [row_den]
   \<and> length (sensor_rows ''temperature_den''
        (ingest_all [(env0, sd_den_bus)] (ingest env0 sd_den empty_db))) = 1"
proof -
  let ?db = "ingest env0 sd_den empty_db"
  have d: "distinct (map s_sensor_id (sensors ?db))"
    by (simp add: ingest_den_sensors)
  have i: "\<forall>(e, sd) \<in> set [(env0, sd_den_bus)]. sd_sensor_id sd = ''temperature_den''"
    by (simp add: sd_den_bus_def sd_den_def)
  have f: "\<not> fail_sensor_query env0" "\<not> fail_sensor_commit env0"
    by (simp_all add: env0_def)
  have ex: "\<exists>(e, sd) \<in> set [(env0, sd_den_bus)]. \<not> fail_sensor_query e \<and> \<not> fail_sensor_commit e"
    using f by simp
  have q: "query_sensor_first ''temperature_den'' ?db = Some row_den"
    by (simp add: query_sensor_first_def ingest_den_sensors row_den_def)
  have n: "sd_sensor_id sd_den_bus = ''temperature_den''" "sd_name sd_den_bus \<noteq> s_name row_den"
    by (simp_all add: sd_den_bus_def sd_den_def row_den_def)
  note w = registry_idempotent[of ?db "[(env0, sd_den_bus)]" "''temperature_den''"]
  have 1: "sensor_rows ''temperature_den'' (ingest_all [(env0, sd_den_bus)] ?db) = [row_den]"
    using w d i q by blast
  have 2: "length (sensor_rows ''temperature_den'' (ingest_all [(env0, sd_den_bus)] ?db)) = 1"
    using w d i ex by blast
  show ?thesis using d n f q 1 2 by blast
qed

section \<open>The read path\<close>

lemma order_by_sorted:
  "sorted_wrt (\<lambda>a b. r_timestamp b \<le> r_timestamp a) (order_by_timestamp_desc rs)"
proof -
  have "sorted (map (\<lambda>r. - r_timestamp r) (order_by_timestamp_desc rs))"
    by (simp add: order_by_timestamp_desc_def)
  then show ?thesis by (simp add: sorted_map)
qed

lemma order_by_mset: "mset (order_by_timestamp_desc rs) = mset rs"
  by (simp add: order_by_timestamp_desc_def)

lemma take_most_recent:
  assumes "sorted_wrt (\<lambda>a b. r_timestamp b \<le> r_timestamp a) S"
  shows "\<forall>r \<in> set (take k S). \<forall>r' \<in># mset S - mset (take k S). r_timestamp r' \<le> r_timestamp r"
proof -
  have "mset S = mset (take k S) + mset (drop k S)"
    by (metis append_take_drop_id mset_append)
  then have rest: "mset S - mset (take k S) = mset (drop k S)" by simp
  have "sorted_wrt (\<lambda>a b. r_timestamp b \<le> r_timestamp a) (take k S @ drop k S)"
    using assms by simp
  then have "\<forall>r \<in> set (take k S). \<forall>r' \<in> set (drop k S). r_timestamp r' \<le> r_timestamp r"
    unfolding sorted_wrt_append by blast
  then show ?thesis unfolding rest by simp
qed

lemma take_order_by_most_recent:
  fixes k :: nat and m :: "sensor_reading list"
  defines "res \<equiv> take k (order_by_timestamp_desc m)"
  shows "length res = min k (length m)"
    and "sorted_wrt (\<lambda>a b. r_timestamp b \<le> r_timestamp a) res"
    and "mset res \<subseteq># mset m"
    and "\<forall>r \<in> set res. \<forall>r' \<in># mset m - mset res. r_timestamp r' \<le> r_timestamp r"
proof -
  let ?S = "order_by_timestamp_desc m"
  show "length res = min k (length m)"
    unfolding res_def by (simp add: order_by_timestamp_desc_def)
  show "sorted_wrt (\<lambda>a b. r_timestamp b \<le> r_timestamp a) res"
    unfolding res_def using order_by_sorted[of m] by (rule sorted_wrt_take)
  have "mset (take k ?S) \<subseteq># mset ?S"
    by (metis append_take_drop_id mset_append mset_subset_eq_add_left)
  then show "mset res \<subseteq># mset m"
    unfolding res_def by (simp add: order_by_mset)
  show "\<forall>r \<in> set res. \<forall>r' \<in># mset m - mset res. r_timestamp r' \<le> r_timestamp r"
    using take_most_recent[OF order_by_sorted[of m], of k]
    unfolding res_def order_by_mset by simp
qed

text \<open>
  Claim C9. For a limit \<open>n\<close> that is a count the backend can bind (not negative, below
  \<open>2 ^ 63\<close>), the query returns, without raising, \<open>min n k\<close> readings, where \<open>k\<close> is the
  number of readings of the sensor inside the optional time window: at most \<open>n\<close>, and
  exactly \<open>n\<close> when there are that many. They are in descending order of timestamp,
  each is a stored reading of that sensor inside the window, and no reading of the
  window that was left out is more recent than one that was returned.
\<close>

theorem query_most_recent:
  "0 \<le> n \<and> n < 2 ^ 63 \<longrightarrow>
     (\<exists>res. get_sensor_readings sid n start_time end_time db = Inr res
        \<and> length res =
            min (nat n) (length (filter (in_window sid start_time end_time) (sensor_readings db)))
        \<and> sorted_wrt (\<lambda>a b. r_timestamp b \<le> r_timestamp a) res
        \<and> mset res \<subseteq># mset (filter (in_window sid start_time end_time) (sensor_readings db))
        \<and> (\<forall>r \<in> set res.
              r_sensor_id r = sid
              \<and> (\<forall>t. start_time = Some t \<longrightarrow> t \<le> r_timestamp r)
              \<and> (\<forall>t. end_time = Some t \<longrightarrow> r_timestamp r \<le> t)
              \<and> (\<forall>r' \<in># mset (filter (in_window sid start_time end_time) (sensor_readings db))
                           - mset res.
                    r_timestamp r' \<le> r_timestamp r)))"
proof
  assume n: "0 \<le> n \<and> n < 2 ^ 63"
  let ?m = "filter (in_window sid start_time end_time) (sensor_readings db)"
  let ?res = "take (nat n) (order_by_timestamp_desc ?m)"
  have res: "get_sensor_readings sid n start_time end_time db = Inr ?res"
    using n by (simp add: get_sensor_readings_def limit_rows_def)
  note p = take_order_by_most_recent[of "nat n" ?m]
  have win: "r_sensor_id r = sid
           \<and> (\<forall>t. start_time = Some t \<longrightarrow> t \<le> r_timestamp r)
           \<and> (\<forall>t. end_time = Some t \<longrightarrow> r_timestamp r \<le> t)" if "r \<in> set ?res" for r
  proof -
    have "r \<in> set ?m" using that p(3) by (meson mset_subset_eqD set_mset_mset in_multiset_in_set)
    then have "in_window sid start_time end_time r" by simp
    then show ?thesis by (auto simp: in_window_def)
  qed
  have "get_sensor_readings sid n start_time end_time db = Inr ?res
        \<and> length ?res = min (nat n) (length ?m)
        \<and> sorted_wrt (\<lambda>a b. r_timestamp b \<le> r_timestamp a) ?res
        \<and> mset ?res \<subseteq># mset ?m
        \<and> (\<forall>r \<in> set ?res.
              r_sensor_id r = sid
              \<and> (\<forall>t. start_time = Some t \<longrightarrow> t \<le> r_timestamp r)
              \<and> (\<forall>t. end_time = Some t \<longrightarrow> r_timestamp r \<le> t)
              \<and> (\<forall>r' \<in># mset ?m - mset ?res. r_timestamp r' \<le> r_timestamp r))"
    using res p win by blast
  then show "\<exists>res. get_sensor_readings sid n start_time end_time db = Inr res
        \<and> length res = min (nat n) (length ?m)
        \<and> sorted_wrt (\<lambda>a b. r_timestamp b \<le> r_timestamp a) res
        \<and> mset res \<subseteq># mset ?m
        \<and> (\<forall>r \<in> set res.
              r_sensor_id r = sid
              \<and> (\<forall>t. start_time = Some t \<longrightarrow> t \<le> r_timestamp r)
              \<and> (\<forall>t. end_time = Some t \<longrightarrow> r_timestamp r \<le> t)
              \<and> (\<forall>r' \<in># mset ?m - mset res. r_timestamp r' \<le> r_timestamp r))"
    by (rule exI)
qed

lemma sd_at_sel:
  "sd_sensor_id (sd_at t) = ''temperature_den''" "sd_timestamp (sd_at t) = Some t"
  "sd_value (sd_at t) = 20" "sd_unit (sd_at t) = JStr ''C''"
  by (simp_all add: sd_at_def sd_den_def)

lemma env0_append_ok: "append_ok env0 sd db"
  by (simp add: append_ok_def registry_ok_def env0_def)

lemma db5_readings:
  "sensor_readings db5 =
     [\<lparr>r_id = 1, r_sensor_id = ''temperature_den'', r_timestamp = 3, r_value = 20, r_unit = JStr ''C''\<rparr>,
      \<lparr>r_id = 2, r_sensor_id = ''temperature_den'', r_timestamp = 1, r_value = 20, r_unit = JStr ''C''\<rparr>,
      \<lparr>r_id = 3, r_sensor_id = ''temperature_den'', r_timestamp = 5, r_value = 20, r_unit = JStr ''C''\<rparr>,
      \<lparr>r_id = 4, r_sensor_id = ''temperature_den'', r_timestamp = 2, r_value = 20, r_unit = JStr ''C''\<rparr>,
      \<lparr>r_id = 5, r_sensor_id = ''temperature_den'', r_timestamp = 4, r_value = 20, r_unit = JStr ''C''\<rparr>]"
  by (simp add: db5_def ingest_readings env0_append_ok new_reading_def sd_at_sel next_id_def
      empty_db_def)

text \<open>
  Five readings appended with the timestamps 3, 1, 5, 2, 4: the limit 2 returns the
  readings of 5 and 4, in that order; with the window from 2 to 4 it returns 4 and 3.
\<close>

theorem query_most_recent_witness:
  "(0::int) \<le> 2 \<and> (2::int) < 2 ^ 63
   \<and> length (sensor_readings db5) = 5
   \<and> (\<exists>res. get_sensor_readings ''temperature_den'' 2 None None db5 = Inr res
         \<and> length res = 2 \<and> map r_timestamp res = [5, 4])
   \<and> (\<exists>res. get_sensor_readings ''temperature_den'' 2 (Some 2) (Some 4) db5 = Inr res
         \<and> length res = 2 \<and> map r_timestamp res = [4, 3])"
proof -
  have f: "filter (in_window ''temperature_den'' None None) (sensor_readings db5) = sensor_readings db5"
    by (simp add: db5_readings in_window_def)
  have g: "length (filter (in_window ''temperature_den'' (Some 2) (Some 4)) (sensor_readings db5)) = 3"
    by (simp add: db5_readings in_window_def)
  have l: "length (sensor_readings db5) = 5"
    by (simp add: db5_readings)
  have z: "(0::int) \<le> 2 \<and> (2::int) < 2 ^ 63" by simp
  obtain res where res: "get_sensor_readings ''temperature_den'' 2 None None db5 = Inr res"
    "length res =
       min (nat 2) (length (filter (in_window ''temperature_den'' None None) (sensor_readings db5)))"
    using query_most_recent[of 2 "''temperature_den''" None None db5] z by blast
  obtain res' where res': "get_sensor_readings ''temperature_den'' 2 (Some 2) (Some 4) db5 = Inr res'"
    "length res' =
       min (nat 2) (length (filter (in_window ''temperature_den'' (Some 2) (Some 4))
                              (sensor_readings db5)))"
    using query_most_recent[of 2 "''temperature_den''" "Some 2" "Some 4" db5] z by blast
  have n1: "length res = 2" using res(2) unfolding f l by simp
  have n2: "length res' = 2" using res'(2) unfolding g by simp
  have "map_sum id (map r_timestamp) (get_sensor_readings ''temperature_den'' 2 None None db5)
      = Inr [5, 4]"
    by (simp add: get_sensor_readings_def limit_rows_def order_by_timestamp_desc_def
        db5_readings in_window_def sort_key_def insort_key.simps)
  then have t1: "map r_timestamp res = [5, 4]" unfolding res(1) by simp
  have "map_sum id (map r_timestamp)
      (get_sensor_readings ''temperature_den'' 2 (Some 2) (Some 4) db5) = Inr [4, 3]"
    by (simp add: get_sensor_readings_def limit_rows_def order_by_timestamp_desc_def
        db5_readings in_window_def sort_key_def insort_key.simps)
  then have t2: "map r_timestamp res' = [4, 3]" unfolding res'(1) by simp
  have e1: "\<exists>res. get_sensor_readings ''temperature_den'' 2 None None db5 = Inr res
         \<and> length res = 2 \<and> map r_timestamp res = [5, 4]"
    using res(1) n1 t1 by (intro exI[of _ res]) simp
  have e2: "\<exists>res. get_sensor_readings ''temperature_den'' 2 (Some 2) (Some 4) db5 = Inr res
         \<and> length res = 2 \<and> map r_timestamp res = [4, 3]"
    using res'(1) n2 t2 by (intro exI[of _ res']) simp
  show ?thesis using z l e1 e2 by (intro conjI) simp_all
qed

section \<open>Messages of the bus\<close>

lemma on_message_process:
  "mqtt_sensor_data e (topic msg) p = Inr (Some sd) \<Longrightarrow> payload msg = Some p \<Longrightarrow>
   on_message e msg db = process_sensor_data e sd db"
  by (simp add: on_message_def Let_def process_raised)

lemma on_message_raised: "raised (on_message e msg db) = None"
  by (simp add: on_message_def Let_def process_raised
      split: option.splits sum.splits)

lemma mqtt_sensor_data_short:
  "length (str_split (CHR ''/'') tpc) < 3 \<Longrightarrow> mqtt_sensor_data e tpc p = Inr None"
  by (simp add: mqtt_sensor_data_def Let_def)

lemma payload_get_default:
  "map_of (rev kvs) ''value'' = None \<Longrightarrow>
   payload_get (JObj kvs) ''value'' (JNum 0) = Inr (JNum 0)"
  "payload_get (JObj (kvs @ [(''value'', JNum 0)])) ''value'' (JNum 0) = Inr (JNum 0)"
  "payload_get (JObj (kvs @ [(''value'', JNum 0)])) ''unit'' d = payload_get (JObj kvs) ''unit'' d"
  by (simp_all add: payload_get_def)

lemma mqtt_sensor_data_missing_value:
  "map_of (rev kvs) ''value'' = None \<Longrightarrow>
   mqtt_sensor_data e tpc (JObj kvs) = mqtt_sensor_data e tpc (JObj (kvs @ [(''value'', JNum 0)]))"
  by (simp add: mqtt_sensor_data_def Let_def payload_get_default py_float_def)

lemma capitalize_temperature: "str_capitalize ''temperature'' = ''Temperature''"
  by code_simp

lemma title_den: "str_title (str_replace (CHR ''_'') (CHR '' '') ''den'') = ''Den''"
  by code_simp

lemma env0_sel:
  "cfg env0 = default_settings"
  "float_str env0 35 = ''35.0''" "float_str env0 30 = ''30.0''" "float_str env0 10 = ''10.0''"
  "float_str env0 0 = ''0.0''"
  "clk_handler env0 = 0" "clk_default env0 = 0" "clk_check env0 = 0" "clk_create env0 = 0"
  "\<not> fail_request_query env0" "\<not> fail_sensor_query env0" "\<not> fail_sensor_commit env0"
  "\<not> fail_sensor_refresh env0" "\<not> fail_reading_commit env0" "\<not> fail_alert_query env0"
  "\<not> fail_alert_commit env0" "\<not> fail_notified_commit env0"
  by (simp_all add: env0_def)

text \<open>
  Claim C5 says that each of the three kinds of malformed message is dropped with a
  logged error and stores nothing. A topic of two segments with a payload that parses is
  dropped with nothing printed; a payload without the \<open>value\<close> member on a good topic is
  not dropped: a reading of 0.0 is stored and, for a temperature, a low alert with it.
\<close>

theorem malformed_message_counterexample:
  "printed (on_message env0
      \<lparr>topic = ''sensors/temperature'', payload = Some (JObj [(''value'', JNum 35)])\<rparr>
      empty_db) = []
   \<and> map r_value (sensor_readings (db_after (on_message env0
        \<lparr>topic = ''sensors/temperature/den'', payload = Some (JObj [(''unit'', JStr ''C'')])\<rparr>
        empty_db))) = [0]
   \<and> map a_threshold (alerts (db_after (on_message env0
        \<lparr>topic = ''sensors/temperature/den'', payload = Some (JObj [(''unit'', JStr ''C'')])\<rparr>
        empty_db))) = [10]"
proof -
  have sd: "mqtt_sensor_data env0 ''sensors/temperature/den'' (JObj [(''unit'', JStr ''C'')]) =
      Inr (Some \<lparr>sd_sensor_id = ''temperature_den'', sd_name = ''Temperature Sensor'',
                 sd_location = ''Den'', sd_sensor_type = ''temperature'', sd_value = 0,
                 sd_unit = JStr ''C'', sd_timestamp = Some 0\<rparr>)"
    by (simp add: mqtt_sensor_data_def payload_get_def py_float_def capitalize_temperature
        title_den env0_def Let_def)
  have 1: "printed (on_message env0
      \<lparr>topic = ''sensors/temperature'', payload = Some (JObj [(''value'', JNum 35)])\<rparr>
      empty_db) = []"
    by (simp add: on_message_def mqtt_sensor_data_def Let_def)
  let ?sd = "\<lparr>sd_sensor_id = ''temperature_den'', sd_name = ''Temperature Sensor'',
                 sd_location = ''Den'', sd_sensor_type = ''temperature'', sd_value = 0,
                 sd_unit = JStr ''C'', sd_timestamp = Some 0\<rparr>"
  have 2: "on_message env0
        \<lparr>topic = ''sensors/temperature/den'', payload = Some (JObj [(''unit'', JStr ''C'')])\<rparr>
        empty_db = process_sensor_data env0 ?sd empty_db"
    by (rule on_message_process) (simp_all add: sd)
  have e: "sensor_readings empty_db = []" "alerts empty_db = []"
    by (simp_all add: empty_db_def)
  have 3: "map r_value (sensor_readings (ingest env0 ?sd empty_db)) = [0]"
    by (simp add: ingest_readings env0_append_ok new_reading_def e)
  have c: "alert_candidate env0 ?sd = Some (10, ''Low temperature alert: 0.0'' @ degree_sign
              @ ''C is below threshold of 10.0'' @ degree_sign @ ''C'')"
    by (simp add: alert_candidate_def env0_sel default_settings_def)
  have 4: "map a_threshold (alerts (ingest env0 ?sd empty_db)) = [10]"
    by (simp add: ingest_alerts env0_append_ok env0_sel recent_alert_def e c)
  show ?thesis
    using 1 3 4 by (simp add: 2 ingest_def)
qed

text \<open>
  Claim C5, amended. No exception leaves \<open>on_message\<close>, whatever the message. A payload
  that does not parse is dropped with one printed error and the database untouched. A
  topic of fewer than three segments, the payload parsing, is dropped with the database
  untouched and nothing printed. A payload object without the \<open>value\<close> member is handled
  exactly as the same payload with \<open>value\<close> 0. After a message that left the database
  as it was, the next message is processed as if the first had never arrived.
\<close>

theorem malformed_message_handling:
  "raised (on_message e msg db) = None
   \<and> (payload msg = None \<longrightarrow>
        db_after (on_message e msg db) = db
        \<and> printed (on_message e msg db) = [ErrorProcessingMQTT JSONDecodeError])
   \<and> (payload msg \<noteq> None \<and> length (str_split (CHR ''/'') (topic msg)) < 3 \<longrightarrow>
        db_after (on_message e msg db) = db \<and> printed (on_message e msg db) = [])
   \<and> (payload msg = Some (JObj kvs) \<and> map_of (rev kvs) ''value'' = None \<longrightarrow>
        on_message e msg db =
          on_message e (msg\<lparr>payload := Some (JObj (kvs @ [(''value'', JNum 0)]))\<rparr>) db)
   \<and> (db_after (on_message e msg db) = db \<longrightarrow>
        on_message e' msg' (db_after (on_message e msg db)) = on_message e' msg' db)"
proof -
  have 1: "raised (on_message e msg db) = None" by (rule on_message_raised)
  have 2: "db_after (on_message e msg db) = db
        \<and> printed (on_message e msg db) = [ErrorProcessingMQTT JSONDecodeError]"
    if "payload msg = None"
    using that by (simp add: on_message_def)
  have 3: "db_after (on_message e msg db) = db \<and> printed (on_message e msg db) = []"
    if "payload msg \<noteq> None \<and> length (str_split (CHR ''/'') (topic msg)) < 3"
    using that by (auto simp: on_message_def mqtt_sensor_data_short)
  have 4: "on_message e msg db =
          on_message e (msg\<lparr>payload := Some (JObj (kvs @ [(''value'', JNum 0)]))\<rparr>) db"
    if "payload msg = Some (JObj kvs) \<and> map_of (rev kvs) ''value'' = None"
    using that mqtt_sensor_data_missing_value[of kvs e "topic msg"] by (simp add: on_message_def)
  have 5: "on_message e' msg' (db_after (on_message e msg db)) = on_message e' msg' db"
    if "db_after (on_message e msg db) = db"
    using that by simp
  show ?thesis using 1 2 3 4 5 by blast
qed

text \<open>One message of each kind, on the empty database.\<close>

theorem malformed_message_handling_witness:
  "payload \<lparr>topic = ''sensors/temperature/den'', payload = None\<rparr> = None
   \<and> printed (on_message env0 \<lparr>topic = ''sensors/temperature/den'', payload = None\<rparr> empty_db)
        = [ErrorProcessingMQTT JSONDecodeError]
   \<and> db_after (on_message env0 \<lparr>topic = ''sensors/temperature/den'', payload = None\<rparr> empty_db)
        = empty_db
   \<and> length (str_split (CHR ''/'') ''sensors/temperature'') < 3
   \<and> printed (on_message env0 \<lparr>topic = ''sensors/temperature'', payload = Some (JObj [])\<rparr>
        empty_db) = []
   \<and> map_of (rev []) ''value'' = (None :: json option)
   \<and> on_message env0 \<lparr>topic = ''sensors/temperature/den'', payload = Some (JObj [])\<rparr> empty_db
       = on_message env0 \<lparr>topic = ''sensors/temperature/den'',
                               payload = Some (JObj [(''value'', JNum 0)])\<rparr> empty_db
   \<and> on_message env0 \<lparr>topic = ''sensors/temperature/den'', payload = Some (JObj [])\<rparr>
        (db_after (on_message env0 \<lparr>topic = ''sensors/temperature/den'', payload = None\<rparr>
           empty_db))
       = on_message env0 \<lparr>topic = ''sensors/temperature/den'', payload = Some (JObj [])\<rparr>
           empty_db"
proof -
  let ?bad = "\<lparr>topic = ''sensors/temperature/den'', payload = None\<rparr>"
  let ?short = "\<lparr>topic = ''sensors/temperature'', payload = Some (JObj [])\<rparr>"
  let ?nov = "\<lparr>topic = ''sensors/temperature/den'', payload = Some (JObj [])\<rparr>"
  have l: "length (str_split (CHR ''/'') ''sensors/temperature'') < 3" by simp
  note a = malformed_message_handling[of env0 ?bad empty_db "[]" env0 ?nov]
  note b = malformed_message_handling[of env0 ?short empty_db "[]" env0 ?nov]
  note c = malformed_message_handling[of env0 ?nov empty_db "[]" env0 ?nov]
  have q: "payload ?bad = None" by simp
  have 1: "printed (on_message env0 ?bad empty_db) = [ErrorProcessingMQTT JSONDecodeError]
      \<and> db_after (on_message env0 ?bad empty_db) = empty_db"
    using a q by blast
  have p: "payload ?short \<noteq> None \<and> length (str_split (CHR ''/'') (topic ?short)) < 3"
    by simp
  have 2: "printed (on_message env0 ?short empty_db) = []"
    using b p by blast
  have 3: "on_message env0 ?nov empty_db
       = on_message env0 \<lparr>topic = ''sensors/temperature/den'',
                               payload = Some (JObj [(''value'', JNum 0)])\<rparr> empty_db"
  proof -
    have "payload ?nov = Some (JObj []) \<and> map_of (rev []) ''value'' = (None :: json option)"
      by simp
    then have "on_message env0 ?nov empty_db =
        on_message env0 (?nov\<lparr>payload := Some (JObj ([] @ [(''value'', JNum 0)]))\<rparr>) empty_db"
      using c by blast
    then show ?thesis by simp
  qed
  have 4: "on_message env0 ?nov (db_after (on_message env0 ?bad empty_db))
       = on_message env0 ?nov empty_db"
    using a 1 by blast
  show ?thesis using 1 2 3 4 l by simp
qed

section \<open>The timestamp of a stored reading\<close>

lemma mqtt_sensor_data_timestamp:
  "mqtt_sensor_data e tpc p = Inr (Some sd) \<Longrightarrow> sd_timestamp sd = Some (clk_handler e)"
  by (auto simp: mqtt_sensor_data_def Let_def split: if_splits sum.splits)

lemma payload_get_other_key:
  "key \<noteq> k \<Longrightarrow> payload_get (JObj (kvs @ [(k, v)])) key d = payload_get (JObj kvs) key d"
  by (simp add: payload_get_def)

lemma mqtt_sensor_data_ignores_timestamp:
  "mqtt_sensor_data e tpc (JObj (kvs @ [(''timestamp'', v)])) = mqtt_sensor_data e tpc (JObj kvs)"
proof -
  have "payload_get (JObj (kvs @ [(''timestamp'', v)])) ''value'' d = payload_get (JObj kvs) ''value'' d"
       "payload_get (JObj (kvs @ [(''timestamp'', v)])) ''unit'' d = payload_get (JObj kvs) ''unit'' d"
    for d
    by (rule payload_get_other_key, simp)+
  then show ?thesis
    by (simp add: mqtt_sensor_data_def Let_def cong: sum.case_cong)
qed

lemma ingest_readings_new:
  "sd_timestamp sd = Some t \<Longrightarrow>
   \<exists>new. sensor_readings (ingest e sd db) = sensor_readings db @ new \<and> length new \<le> 1
         \<and> (\<forall>r \<in> set new. r_timestamp r = t)"
proof (cases "append_ok e sd db")
  case True
  assume "sd_timestamp sd = Some t"
  then have "sensor_readings (ingest e sd db) = sensor_readings db @ [new_reading e sd db]
      \<and> length [new_reading e sd db] \<le> 1
      \<and> (\<forall>r \<in> set [new_reading e sd db]. r_timestamp r = t)"
    using True by (simp add: ingest_readings new_reading_def)
  then show ?thesis by blast
next
  case False
  then have "sensor_readings (ingest e sd db) = sensor_readings db @ []
      \<and> length ([]::sensor_reading list) \<le> 1
      \<and> (\<forall>r \<in> set ([]::sensor_reading list). r_timestamp r = t)"
    by (simp add: ingest_readings)
  then show ?thesis by blast
qed

lemma on_message_cases:
  "(db_after (on_message e msg db) = db)
   \<or> (\<exists>p sd. payload msg = Some p \<and> mqtt_sensor_data e (topic msg) p = Inr (Some sd)
          \<and> on_message e msg db = process_sensor_data e sd db)"
  by (auto simp: on_message_def Let_def process_raised split: option.splits sum.splits)

text \<open>
  Claim C10. Both transports put their own reading of the clock under the key
  \<open>timestamp\<close> before they call the gateway: the bus transport whatever the payload
  holds (a \<open>timestamp\<close> member of the payload changes nothing), the request transport
  from a body that has no such field. So a call through either transport appends at
  most one reading, and that reading carries the transport's clock reading: never a
  time the sensor sent, and never the gateway's own default clock.
\<close>

theorem stored_timestamp_is_handler_clock:
  "(mqtt_sensor_data e tpc p = Inr (Some sd) \<longrightarrow> sd_timestamp sd = Some (clk_handler e))
   \<and> mqtt_sensor_data e tpc (JObj (kvs @ [(''timestamp'', v)])) = mqtt_sensor_data e tpc (JObj kvs)
   \<and> sd_timestamp (http_sensor_data e data db) = Some (clk_handler e)
   \<and> (\<exists>new. sensor_readings (db_after (on_message e msg db)) = sensor_readings db @ new
          \<and> length new \<le> 1 \<and> (\<forall>r \<in> set new. r_timestamp r = clk_handler e))
   \<and> (\<exists>new. sensor_readings (db_after (add_sensor_data e data db)) = sensor_readings db @ new
          \<and> length new \<le> 1 \<and> (\<forall>r \<in> set new. r_timestamp r = clk_handler e))"
proof -
  have 1: "mqtt_sensor_data e tpc p = Inr (Some sd) \<longrightarrow> sd_timestamp sd = Some (clk_handler e)"
    using mqtt_sensor_data_timestamp by blast
  have 2: "mqtt_sensor_data e tpc (JObj (kvs @ [(''timestamp'', v)])) = mqtt_sensor_data e tpc (JObj kvs)"
    by (rule mqtt_sensor_data_ignores_timestamp)
  have 3: "sd_timestamp (http_sensor_data e data db) = Some (clk_handler e)"
    by (simp add: http_sensor_data_def Let_def)
  have 4: "\<exists>new. sensor_readings (db_after (on_message e msg db)) = sensor_readings db @ new
          \<and> length new \<le> 1 \<and> (\<forall>r \<in> set new. r_timestamp r = clk_handler e)"
  proof (cases "db_after (on_message e msg db) = db")
    case True
    then have "sensor_readings (db_after (on_message e msg db)) = sensor_readings db @ []
      \<and> length ([]::sensor_reading list) \<le> 1
      \<and> (\<forall>r \<in> set ([]::sensor_reading list). r_timestamp r = clk_handler e)"
      by simp
    then show ?thesis by blast
  next
    case False
    then obtain p sd' where sd': "mqtt_sensor_data e (topic msg) p = Inr (Some sd')"
        "on_message e msg db = process_sensor_data e sd' db"
      using on_message_cases[of e msg db] by blast
    show ?thesis
      using ingest_readings_new[OF mqtt_sensor_data_timestamp[OF sd'(1)], of e db]
      by (simp add: sd'(2) ingest_def)
  qed
  have 5: "\<exists>new. sensor_readings (db_after (add_sensor_data e data db)) = sensor_readings db @ new
          \<and> length new \<le> 1 \<and> (\<forall>r \<in> set new. r_timestamp r = clk_handler e)"
  proof (cases "fail_request_query e")
    case True
    then have "sensor_readings (db_after (add_sensor_data e data db)) = sensor_readings db @ []
      \<and> length ([]::sensor_reading list) \<le> 1
      \<and> (\<forall>r \<in> set ([]::sensor_reading list). r_timestamp r = clk_handler e)"
      by (simp add: add_sensor_data_def)
    then show ?thesis by blast
  next
    case False
    then show ?thesis
      using ingest_readings_new[OF 3, of e db]
      by (simp add: add_sensor_data_def ingest_def)
  qed
  show ?thesis using 1 2 3 4 5 by blast
qed


lemma singleton_timestamps:
  assumes "\<exists>new. rs = [] @ new \<and> length new \<le> 1 \<and> (\<forall>r \<in> set new. r_timestamp r = t)"
    "length rs = 1"
  shows "map r_timestamp rs = [t]"
proof -
  from assms obtain r where "rs = [r]" by (cases rs) auto
  with assms(1) show ?thesis by auto
qed

text \<open>
  The transport reads the clock at 5, the gateway's default would read it at 7, and the
  payload claims the time 999: the reading stored has the timestamp 5 on both paths.
\<close>

theorem stored_timestamp_is_handler_clock_witness:
  "mqtt_sensor_data (env0\<lparr>clk_handler := 5, clk_default := 7\<rparr>) ''sensors/temperature/den''
      (JObj [(''value'', JNum 35), (''timestamp'', JNum 999)])
     = Inr (Some \<lparr>sd_sensor_id = ''temperature_den'', sd_name = ''Temperature Sensor'',
                 sd_location = ''Den'', sd_sensor_type = ''temperature'', sd_value = 35,
                 sd_unit = JStr [], sd_timestamp = Some 5\<rparr>)
   \<and> map r_timestamp (sensor_readings (db_after
         (on_message (env0\<lparr>clk_handler := 5, clk_default := 7\<rparr>)
            \<lparr>topic = ''sensors/temperature/den'',
              payload = Some (JObj [(''value'', JNum 35), (''timestamp'', JNum 999)])\<rparr>
            empty_db))) = [5]
   \<and> map r_timestamp (sensor_readings (db_after
         (add_sensor_data (env0\<lparr>clk_handler := 5, clk_default := 7\<rparr>) req_den empty_db))) = [5]"
proof -
  let ?e = "env0\<lparr>clk_handler := 5, clk_default := 7\<rparr>"
  let ?sd = "\<lparr>sd_sensor_id = ''temperature_den'', sd_name = ''Temperature Sensor'',
                 sd_location = ''Den'', sd_sensor_type = ''temperature'', sd_value = 35,
                 sd_unit = JStr [], sd_timestamp = Some 5\<rparr>"
  let ?msg = "\<lparr>topic = ''sensors/temperature/den'',
              payload = Some (JObj [(''value'', JNum 35), (''timestamp'', JNum 999)])\<rparr>"
  have sd: "mqtt_sensor_data ?e ''sensors/temperature/den''
      (JObj [(''value'', JNum 35), (''timestamp'', JNum 999)]) = Inr (Some ?sd)"
    by (simp add: mqtt_sensor_data_def payload_get_def py_float_def capitalize_temperature
        title_den env0_def Let_def)
  have ok: "append_ok ?e x db" for x db
    by (simp add: append_ok_def registry_ok_def env0_def)
  have f: "\<not> fail_request_query ?e" by (simp add: env0_def)
  have e: "sensor_readings empty_db = []" by (simp add: empty_db_def)
  have m: "on_message ?e ?msg empty_db = process_sensor_data ?e ?sd empty_db"
    by (rule on_message_process) (simp_all add: sd)
  have lm: "length (sensor_readings (db_after (on_message ?e ?msg empty_db))) = 1"
    unfolding m ingest_def[symmetric] by (simp add: ingest_readings ok e)
  have h: "add_sensor_data ?e req_den empty_db =
      process_sensor_data ?e (http_sensor_data ?e req_den empty_db) empty_db"
    using f by (simp add: add_sensor_data_def)
  have lh: "length (sensor_readings (db_after (add_sensor_data ?e req_den empty_db))) = 1"
    unfolding h ingest_def[symmetric] by (simp add: ingest_readings ok e)
  note w = stored_timestamp_is_handler_clock[of ?e "''sensors/temperature/den''"
      "JObj [(''value'', JNum 35), (''timestamp'', JNum 999)]" ?sd "[]" "JNum 999" req_den
      empty_db ?msg]
  have c: "clk_handler ?e = 5" by (simp add: env0_def)
  have 1: "map r_timestamp (sensor_readings (db_after (on_message ?e ?msg empty_db))) = [5]"
    by (rule singleton_timestamps[OF _ lm]) (use w in \<open>simp only: e c\<close>)
  have 2: "map r_timestamp (sensor_readings (db_after (add_sensor_data ?e req_den empty_db))) = [5]"
    by (rule singleton_timestamps[OF _ lh]) (use w in \<open>simp only: e c\<close>)
  show ?thesis using sd 1 2 by simp
qed

section \<open>The two transports\<close>

lemma ingest_agree:
  assumes "sd_sensor_id sd' = sd_sensor_id sd" "sd_value sd' = sd_value sd"
    "sd_unit sd' = sd_unit sd" "sd_timestamp sd' = sd_timestamp sd"
  shows "sensor_readings (ingest e sd' db) = sensor_readings (ingest e sd db)"
    and "map s_sensor_id (sensors (ingest e sd' db)) = map s_sensor_id (sensors (ingest e sd db))"
    and "query_sensor_first (sd_sensor_id sd) db \<noteq> None \<Longrightarrow>
           sensors (ingest e sd' db) = sensors (ingest e sd db)"
    and "sd_sensor_type sd' = sd_sensor_type sd \<Longrightarrow>
           alerts (ingest e sd' db) = alerts (ingest e sd db)"
proof -
  have ok: "append_ok e sd' db = append_ok e sd db"
    using assms(1) by (simp add: append_ok_def registry_ok_def)
  have nr: "new_reading e sd' db = new_reading e sd db"
    using assms by (simp add: new_reading_def)
  show "sensor_readings (ingest e sd' db) = sensor_readings (ingest e sd db)"
    by (simp add: ingest_readings ok nr)
  show "map s_sensor_id (sensors (ingest e sd' db)) = map s_sensor_id (sensors (ingest e sd db))"
    using assms(1) by (simp add: ingest_sensors)
  show "sensors (ingest e sd' db) = sensors (ingest e sd db)"
    if "query_sensor_first (sd_sensor_id sd) db \<noteq> None"
    using that assms(1) by (auto simp: ingest_sensors)
  show "alerts (ingest e sd' db) = alerts (ingest e sd db)"
    if t: "sd_sensor_type sd' = sd_sensor_type sd"
  proof -
    have c: "alert_candidate e sd' = alert_candidate e sd"
      using t assms(2) by (simp add: alert_candidate_def)
    have na: "new_alert e db sd' a b = new_alert e db sd a b" for a b
      using assms(1,2) by (simp add: new_alert_def)
    show ?thesis
      using assms(1) by (simp add: ingest_alerts ok c na split: option.splits)
  qed
qed

lemma str_split_nonempty: "str_split c s \<noteq> []"
  by (induction s) (auto split: list.splits)

lemma str_split_hd: "c \<notin> set a \<Longrightarrow> hd (str_split c (a @ c # b)) = a"
proof (induction a)
  case Nil
  then show ?case by simp
next
  case (Cons x a)
  then have "hd (str_split c (a @ c # b)) = a" by simp
  moreover obtain q qs where "str_split c (a @ c # b) = q # qs"
    using str_split_nonempty[of c "a @ c # b"] by (cases "str_split c (a @ c # b)") auto
  ultimately show ?case using Cons.prems by auto
qed

lemma mqtt_sensor_data_id:
  "mqtt_sensor_data e tpc p = Inr (Some sd) \<Longrightarrow>
   \<exists>loc. sd_sensor_id sd = sd_sensor_type sd @ CHR ''_'' # loc"
  by (auto simp: mqtt_sensor_data_def Let_def split: if_splits sum.splits)

lemma http_type_unregistered:
  "query_sensor_first (req_sensor_id data) db = None \<Longrightarrow>
   req_sensor_id data = ty @ CHR ''_'' # loc \<Longrightarrow> CHR ''_'' \<notin> set ty \<Longrightarrow>
   sd_sensor_type (http_sensor_data e data db) = ty"
  by (simp add: http_sensor_data_def Let_def str_split_hd)

lemma http_sensor_data_sel:
  "sd_sensor_id (http_sensor_data e data db) = req_sensor_id data"
  "sd_value (http_sensor_data e data db) = req_value data"
  "sd_unit (http_sensor_data e data db) = (case req_unit data of Some u \<Rightarrow> JStr u | None \<Rightarrow> JNull)"
  "sd_timestamp (http_sensor_data e data db) = Some (clk_handler e)"
  by (simp_all add: http_sensor_data_def Let_def)

lemma str_capitalize_length: "length (str_capitalize s) = length s"
  by (cases s) (simp_all add: str_capitalize_def)

lemma name_differs: "ty @ ''_'' @ loc \<noteq> str_capitalize ty @ '' Sensor''"
proof
  assume eq: "ty @ ''_'' @ loc = str_capitalize ty @ '' Sensor''"
  have l: "(ty @ ''_'' @ loc) ! length ty = CHR ''_''" by (simp add: nth_append)
  have r: "(str_capitalize ty @ '' Sensor'') ! length ty = CHR '' ''"
    using str_capitalize_length[of ty] by (simp add: nth_append)
  have "(ty @ ''_'' @ loc) ! length ty = (str_capitalize ty @ '' Sensor'') ! length ty"
    by (simp only: eq)
  then have "CHR ''_'' = CHR '' ''" by (simp only: l r)
  then show False by simp
qed

lemma to_upper_not_lower: "\<not> is_lower (to_upper c)"
proof (cases "is_lower c")
  case True
  define n :: nat where "n = of_char c"
  have b: "97 \<le> n" "n \<le> 122"
    using True by (simp_all add: is_lower_def n_def)
  have "(n - 32) mod 256 = n - 32" using b by (simp add: mod_less)
  then have "(of_char (to_upper c) :: nat) = n - 32"
    using True by (simp add: to_upper_def n_def[symmetric])
  then show ?thesis using b by (simp add: is_lower_def)
next
  case False
  then show ?thesis by (simp add: to_upper_def)
qed

lemma title_from_head: "title_from False (c # cs) = d # ds \<Longrightarrow> \<not> is_lower d"
  using to_upper_not_lower[of c]
  by (auto simp: is_lower_def is_upper_def split: if_splits)

lemma is_lower_u: "is_lower (CHR ''u'')"
  by (simp add: is_lower_def)

lemma title_not_unknown: "str_title s \<noteq> ''unknown''"
proof
  assume eq: "str_title s = ''unknown''"
  then obtain c cs where s: "s = c # cs" by (cases s) (simp_all add: str_title_def)
  have "title_from False (c # cs) = CHR ''u'' # ''nknown''"
    using eq s by (simp add: str_title_def)
  then have "\<not> is_lower (CHR ''u'')" by (rule title_from_head)
  then show False using is_lower_u by simp
qed

lemma mqtt_sensor_data_meta:
  "mqtt_sensor_data e tpc p = Inr (Some sd) \<Longrightarrow>
   \<exists>loc. sd_sensor_id sd = sd_sensor_type sd @ ''_'' @ loc
        \<and> sd_name sd = str_capitalize (sd_sensor_type sd) @ '' Sensor''
        \<and> sd_location sd = str_title (str_replace (CHR ''_'') (CHR '' '') loc)"
  by (auto simp: mqtt_sensor_data_def Let_def split: if_splits sum.splits)

lemma http_sensor_data_unregistered:
  "query_sensor_first (req_sensor_id data) db = None \<Longrightarrow>
   sd_name (http_sensor_data e data db) = req_sensor_id data
   \<and> sd_location (http_sensor_data e data db) = ''unknown''"
  by (simp add: http_sensor_data_def Let_def)

lemma new_rows_differ:
  assumes m: "mqtt_sensor_data e tpc p = Inr (Some sd)"
    and i: "req_sensor_id data = sd_sensor_id sd"
    and q: "query_sensor_first (sd_sensor_id sd) db = None"
    and f: "\<not> fail_sensor_query e" "\<not> fail_sensor_commit e"
  shows "\<exists>rh rm. sensors (ingest e (http_sensor_data e data db) db) = sensors db @ [rh]
          \<and> sensors (ingest e sd db) = sensors db @ [rm]
          \<and> s_name rh = req_sensor_id data \<and> s_location rh = ''unknown''
          \<and> s_name rm = sd_name sd \<and> s_location rm = sd_location sd
          \<and> s_name rh \<noteq> s_name rm \<and> s_location rh \<noteq> s_location rm"
proof -
  let ?h = "http_sensor_data e data db"
  obtain loc where meta: "sd_sensor_id sd = sd_sensor_type sd @ ''_'' @ loc"
      "sd_name sd = str_capitalize (sd_sensor_type sd) @ '' Sensor''"
      "sd_location sd = str_title (str_replace (CHR ''_'') (CHR '' '') loc)"
    using mqtt_sensor_data_meta[OF m] by blast
  have hq: "query_sensor_first (req_sensor_id data) db = None" using i q by simp
  have hm: "sd_name ?h = req_sensor_id data" "sd_location ?h = ''unknown''"
    using http_sensor_data_unregistered[OF hq] by simp_all
  have hi: "sd_sensor_id ?h = sd_sensor_id sd"
    using i by (simp add: http_sensor_data_def Let_def)
  let ?rh = "\<lparr>s_id = next_id (map s_id (sensors db)), s_sensor_id = sd_sensor_id ?h,
               s_name = sd_name ?h, s_location = sd_location ?h,
               s_sensor_type = sd_sensor_type ?h\<rparr>"
  let ?rm = "\<lparr>s_id = next_id (map s_id (sensors db)), s_sensor_id = sd_sensor_id sd,
               s_name = sd_name sd, s_location = sd_location sd,
               s_sensor_type = sd_sensor_type sd\<rparr>"
  have sh: "sensors (ingest e ?h db) = sensors db @ [?rh]"
    using f q hi by (simp add: ingest_sensors)
  have sm: "sensors (ingest e sd db) = sensors db @ [?rm]"
    using f q by (simp add: ingest_sensors)
  have n: "req_sensor_id data \<noteq> sd_name sd"
    using name_differs[of "sd_sensor_type sd" loc] i meta(1,2) by simp
  have l: "''unknown'' \<noteq> sd_location sd"
    using title_not_unknown[of "str_replace (CHR ''_'') (CHR '' '') loc"] meta(3) by simp
  have "sensors (ingest e ?h db) = sensors db @ [?rh]
          \<and> sensors (ingest e sd db) = sensors db @ [?rm]
          \<and> s_name ?rh = req_sensor_id data \<and> s_location ?rh = ''unknown''
          \<and> s_name ?rm = sd_name sd \<and> s_location ?rm = sd_location sd
          \<and> s_name ?rh \<noteq> s_name ?rm \<and> s_location ?rh \<noteq> s_location ?rm"
    using sh sm hm n l by simp
  then show ?thesis by blast
qed

text \<open>
  Claim C7, amended. Both transports hand their dictionary to the one function
  \<open>process_sensor_data\<close>. When a request and a bus message carry the same identifier,
  value and unit (the timestamp is the transport's clock on both paths), they store the
  same reading and leave the same identifiers in the registry. The registry rows are
  the same when the sensor was registered before. The alerts are the same when both
  transports use the same sensor type, as they do for an unregistered sensor whose
  type (the second topic segment) has no underscore. For an unregistered sensor whose
  registration reaches the storage, each transport appends one row, and the two rows
  differ in name and in location: the request path stores the identifier as the name
  and \<open>unknown\<close> as the location, the bus path the name and the location it derives
  from the topic, which are never those.
\<close>

theorem transports_converge:
  "payload msg = Some p \<and> mqtt_sensor_data e (topic msg) p = Inr (Some sd)
   \<and> \<not> fail_request_query e
   \<and> req_sensor_id data = sd_sensor_id sd \<and> req_value data = sd_value sd
   \<and> (case req_unit data of Some u \<Rightarrow> JStr u | None \<Rightarrow> JNull) = sd_unit sd \<longrightarrow>
     on_message e msg db = process_sensor_data e sd db
     \<and> add_sensor_data e data db = process_sensor_data e (http_sensor_data e data db) db
     \<and> sensor_readings (db_after (add_sensor_data e data db)) =
         sensor_readings (db_after (on_message e msg db))
     \<and> map s_sensor_id (sensors (db_after (add_sensor_data e data db))) =
         map s_sensor_id (sensors (db_after (on_message e msg db)))
     \<and> (query_sensor_first (sd_sensor_id sd) db \<noteq> None \<longrightarrow>
          sensors (db_after (add_sensor_data e data db)) =
            sensors (db_after (on_message e msg db)))
     \<and> (sd_sensor_type (http_sensor_data e data db) = sd_sensor_type sd \<longrightarrow>
          alerts (db_after (add_sensor_data e data db)) =
            alerts (db_after (on_message e msg db)))
     \<and> (query_sensor_first (sd_sensor_id sd) db = None \<and> CHR ''_'' \<notin> set (sd_sensor_type sd) \<longrightarrow>
          alerts (db_after (add_sensor_data e data db)) =
            alerts (db_after (on_message e msg db)))
     \<and> (query_sensor_first (sd_sensor_id sd) db = None
          \<and> \<not> fail_sensor_query e \<and> \<not> fail_sensor_commit e \<longrightarrow>
          (\<exists>rh rm. sensors (db_after (add_sensor_data e data db)) = sensors db @ [rh]
             \<and> sensors (db_after (on_message e msg db)) = sensors db @ [rm]
             \<and> s_name rh = req_sensor_id data \<and> s_location rh = ''unknown''
             \<and> s_name rm = sd_name sd \<and> s_location rm = sd_location sd
             \<and> s_name rh \<noteq> s_name rm \<and> s_location rh \<noteq> s_location rm))"
proof
  assume h: "payload msg = Some p \<and> mqtt_sensor_data e (topic msg) p = Inr (Some sd)
   \<and> \<not> fail_request_query e
   \<and> req_sensor_id data = sd_sensor_id sd \<and> req_value data = sd_value sd
   \<and> (case req_unit data of Some u \<Rightarrow> JStr u | None \<Rightarrow> JNull) = sd_unit sd"
  let ?h = "http_sensor_data e data db"
  have m: "on_message e msg db = process_sensor_data e sd db"
    using h on_message_process by blast
  have a: "add_sensor_data e data db = process_sensor_data e ?h db"
    using h by (simp add: add_sensor_data_def)
  have ts: "sd_timestamp sd = Some (clk_handler e)"
    using h mqtt_sensor_data_timestamp by blast
  have eq: "sd_sensor_id ?h = sd_sensor_id sd" "sd_value ?h = sd_value sd"
    "sd_unit ?h = sd_unit sd" "sd_timestamp ?h = sd_timestamp sd"
    using h ts by (simp_all add: http_sensor_data_sel)
  note ag = ingest_agree[OF eq, where e = e and db = db]
  have 3: "sensor_readings (db_after (add_sensor_data e data db)) =
         sensor_readings (db_after (on_message e msg db))"
    unfolding m a ingest_def[symmetric] by (rule ag(1))
  have 4: "map s_sensor_id (sensors (db_after (add_sensor_data e data db))) =
         map s_sensor_id (sensors (db_after (on_message e msg db)))"
    unfolding m a ingest_def[symmetric] by (rule ag(2))
  have 5: "sensors (db_after (add_sensor_data e data db)) =
            sensors (db_after (on_message e msg db))"
    if "query_sensor_first (sd_sensor_id sd) db \<noteq> None"
    unfolding m a ingest_def[symmetric] by (rule ag(3)[OF that])
  have 6: "alerts (db_after (add_sensor_data e data db)) =
            alerts (db_after (on_message e msg db))"
    if "sd_sensor_type ?h = sd_sensor_type sd"
    unfolding m a ingest_def[symmetric] by (rule ag(4)[OF that])
  have 7: "alerts (db_after (add_sensor_data e data db)) =
            alerts (db_after (on_message e msg db))"
    if u: "query_sensor_first (sd_sensor_id sd) db = None \<and> CHR ''_'' \<notin> set (sd_sensor_type sd)"
  proof -
    obtain loc where "sd_sensor_id sd = sd_sensor_type sd @ CHR ''_'' # loc"
      using h mqtt_sensor_data_id by blast
    then have "sd_sensor_type ?h = sd_sensor_type sd"
      using h u http_type_unregistered[of data db "sd_sensor_type sd" loc e] by simp
    then show ?thesis by (rule 6)
  qed
  have 8: "\<exists>rh rm. sensors (db_after (add_sensor_data e data db)) = sensors db @ [rh]
             \<and> sensors (db_after (on_message e msg db)) = sensors db @ [rm]
             \<and> s_name rh = req_sensor_id data \<and> s_location rh = ''unknown''
             \<and> s_name rm = sd_name sd \<and> s_location rm = sd_location sd
             \<and> s_name rh \<noteq> s_name rm \<and> s_location rh \<noteq> s_location rm"
    if u: "query_sensor_first (sd_sensor_id sd) db = None
          \<and> \<not> fail_sensor_query e \<and> \<not> fail_sensor_commit e"
  proof -
    have h1: "mqtt_sensor_data e (topic msg) p = Inr (Some sd)"
      and h2: "req_sensor_id data = sd_sensor_id sd"
      using h by simp_all
    have u1: "query_sensor_first (sd_sensor_id sd) db = None"
      and u2: "\<not> fail_sensor_query e" and u3: "\<not> fail_sensor_commit e"
      using u by simp_all
    show ?thesis
      unfolding m a ingest_def[symmetric]
      by (rule new_rows_differ[OF h1 h2 u1 u2 u3])
  qed
  show "on_message e msg db = process_sensor_data e sd db
     \<and> add_sensor_data e data db = process_sensor_data e (http_sensor_data e data db) db
     \<and> sensor_readings (db_after (add_sensor_data e data db)) =
         sensor_readings (db_after (on_message e msg db))
     \<and> map s_sensor_id (sensors (db_after (add_sensor_data e data db))) =
         map s_sensor_id (sensors (db_after (on_message e msg db)))
     \<and> (query_sensor_first (sd_sensor_id sd) db \<noteq> None \<longrightarrow>
          sensors (db_after (add_sensor_data e data db)) =
            sensors (db_after (on_message e msg db)))
     \<and> (sd_sensor_type (http_sensor_data e data db) = sd_sensor_type sd \<longrightarrow>
          alerts (db_after (add_sensor_data e data db)) =
            alerts (db_after (on_message e msg db)))
     \<and> (query_sensor_first (sd_sensor_id sd) db = None \<and> CHR ''_'' \<notin> set (sd_sensor_type sd) \<longrightarrow>
          alerts (db_after (add_sensor_data e data db)) =
            alerts (db_after (on_message e msg db)))
     \<and> (query_sensor_first (sd_sensor_id sd) db = None
          \<and> \<not> fail_sensor_query e \<and> \<not> fail_sensor_commit e \<longrightarrow>
          (\<exists>rh rm. sensors (db_after (add_sensor_data e data db)) = sensors db @ [rh]
             \<and> sensors (db_after (on_message e msg db)) = sensors db @ [rm]
             \<and> s_name rh = req_sensor_id data \<and> s_location rh = ''unknown''
             \<and> s_name rm = sd_name sd \<and> s_location rm = sd_location sd
             \<and> s_name rh \<noteq> s_name rm \<and> s_location rh \<noteq> s_location rm))"
    using m a 3 4 5 6 7 8 by blast
qed


lemma capitalize_temperature_x: "str_capitalize ''temperature_x'' = ''Temperature_x''"
  by code_simp

lemma msg_den_data:
  "mqtt_sensor_data env0 (topic msg_den)
     (JObj [(''value'', JNum 35), (''unit'', JStr ''C'')]) = Inr (Some sd_den_bus)"
  by (simp add: mqtt_sensor_data_def payload_get_def py_float_def capitalize_temperature
      title_den msg_den_def sd_den_bus_def sd_den_def env0_sel Let_def)

lemma req_den_data: "http_sensor_data env0 req_den empty_db = sd_den"
  by (simp add: http_sensor_data_def query_sensor_first_def req_den_def sd_den_def empty_db_def
      env0_sel Let_def)

lemma msg_x_data:
  "mqtt_sensor_data env0 (topic msg_x)
     (JObj [(''value'', JNum 35), (''unit'', JStr ''C'')]) =
   Inr (Some \<lparr>sd_sensor_id = ''temperature_x_den'', sd_name = ''Temperature_x Sensor'',
              sd_location = ''Den'', sd_sensor_type = ''temperature_x'', sd_value = 35,
              sd_unit = JStr ''C'', sd_timestamp = Some 0\<rparr>)"
  by (simp add: mqtt_sensor_data_def payload_get_def py_float_def capitalize_temperature_x
      title_den msg_x_def env0_sel Let_def)

lemma req_x_data:
  "http_sensor_data env0 req_x empty_db =
     \<lparr>sd_sensor_id = ''temperature_x_den'', sd_name = ''temperature_x_den'',
      sd_location = ''unknown'', sd_sensor_type = ''temperature'', sd_value = 35,
      sd_unit = JStr ''C'', sd_timestamp = Some 0\<rparr>"
  by (simp add: http_sensor_data_def query_sensor_first_def req_x_def empty_db_def
      env0_sel Let_def)

lemma empty_db_sel:
  "sensors empty_db = []" "sensor_readings empty_db = []" "alerts empty_db = []"
  by (simp_all add: empty_db_def)

text \<open>
  Claim C7 says that both transports have the same registry, store and alert effects
  for the same reading. For a new sensor they register different rows: the request
  path takes the identifier as the name and \<open>unknown\<close> as the location, the bus path
  derives both from the topic. And they may evaluate different sensor types: for the
  topic \<open>sensors/temperature_x/den\<close> the bus path uses \<open>temperature_x\<close> (no thresholds,
  no alert), the request path the part of the identifier before the first underscore,
  \<open>temperature\<close> (an alert for 35.0).
\<close>

theorem transports_diverge_counterexample:
  "map s_name (sensors (db_after (add_sensor_data env0 req_den empty_db))) = [''temperature_den'']
   \<and> map s_name (sensors (db_after (on_message env0 msg_den empty_db))) = [''Temperature Sensor'']
   \<and> map s_location (sensors (db_after (add_sensor_data env0 req_den empty_db))) = [''unknown'']
   \<and> map s_location (sensors (db_after (on_message env0 msg_den empty_db))) = [''Den'']
   \<and> sensor_readings (db_after (add_sensor_data env0 req_den empty_db)) =
       sensor_readings (db_after (on_message env0 msg_den empty_db))
   \<and> sensor_readings (db_after (add_sensor_data env0 req_x empty_db)) =
       sensor_readings (db_after (on_message env0 msg_x empty_db))
   \<and> length (alerts (db_after (add_sensor_data env0 req_x empty_db))) = 1
   \<and> alerts (db_after (on_message env0 msg_x empty_db)) = []"
proof -
  let ?mx = "\<lparr>sd_sensor_id = ''temperature_x_den'', sd_name = ''Temperature_x Sensor'',
              sd_location = ''Den'', sd_sensor_type = ''temperature_x'', sd_value = 35,
              sd_unit = JStr ''C'', sd_timestamp = Some 0\<rparr>"
  let ?hx = "\<lparr>sd_sensor_id = ''temperature_x_den'', sd_name = ''temperature_x_den'',
      sd_location = ''unknown'', sd_sensor_type = ''temperature'', sd_value = 35,
      sd_unit = JStr ''C'', sd_timestamp = Some 0\<rparr>"
  have h: "db_after (add_sensor_data env0 req_den empty_db) = ingest env0 sd_den empty_db"
    by (simp add: add_sensor_data_def env0_sel req_den_data ingest_def)
  have m: "db_after (on_message env0 msg_den empty_db) = ingest env0 sd_den_bus empty_db"
    using on_message_process[OF msg_den_data, of empty_db]
    by (simp add: msg_den_def ingest_def)
  have hx: "db_after (add_sensor_data env0 req_x empty_db) = ingest env0 ?hx empty_db"
    by (simp add: add_sensor_data_def env0_sel req_x_data ingest_def)
  have mx: "db_after (on_message env0 msg_x empty_db) = ingest env0 ?mx empty_db"
    using on_message_process[OF msg_x_data, of empty_db]
    by (simp add: msg_x_def ingest_def)
  have q: "query_sensor_first sid empty_db = None" for sid
    by (simp add: query_sensor_first_def empty_db_sel)
  have 1: "map s_name (sensors (ingest env0 sd_den empty_db)) = [''temperature_den'']"
    by (simp add: ingest_sensors env0_sel q empty_db_sel sd_den_def)
  have 2: "map s_name (sensors (ingest env0 sd_den_bus empty_db)) = [''Temperature Sensor'']"
    by (simp add: ingest_sensors env0_sel q empty_db_sel sd_den_bus_def sd_den_def)
  have l1: "map s_location (sensors (ingest env0 sd_den empty_db)) = [''unknown'']"
    by (simp add: ingest_sensors env0_sel q empty_db_sel sd_den_def)
  have l2: "map s_location (sensors (ingest env0 sd_den_bus empty_db)) = [''Den'']"
    by (simp add: ingest_sensors env0_sel q empty_db_sel sd_den_bus_def sd_den_def)
  have 3: "sensor_readings (ingest env0 sd_den empty_db) =
      sensor_readings (ingest env0 sd_den_bus empty_db)"
    by (simp add: ingest_readings env0_append_ok new_reading_def sd_den_bus_def)
  have 4: "sensor_readings (ingest env0 ?hx empty_db) = sensor_readings (ingest env0 ?mx empty_db)"
    by (simp add: ingest_readings env0_append_ok new_reading_def)
  have ch: "alert_candidate env0 ?hx \<noteq> None"
    by (simp add: alert_candidate_def env0_sel default_settings_def)
  have cm: "alert_candidate env0 ?mx = None"
    by (simp add: alert_candidate_def)
  have r: "recent_alert env0 sid empty_db = None" for sid
    by (simp add: recent_alert_def empty_db_sel)
  have 5: "length (alerts (ingest env0 ?hx empty_db)) = 1"
    using ch by (auto simp: ingest_alerts env0_append_ok env0_sel r empty_db_sel)
  have 6: "alerts (ingest env0 ?mx empty_db) = []"
    by (simp add: ingest_alerts cm empty_db_sel)
  show ?thesis
    unfolding h m hx mx using 1 2 l1 l2 3 4 5 6 by simp
qed

text \<open>
  The scenario reading through both transports, on the empty database and on the
  database where the sensor is registered.
\<close>

theorem transports_converge_witness:
  "payload msg_den = Some (JObj [(''value'', JNum 35), (''unit'', JStr ''C'')])
   \<and> mqtt_sensor_data env0 (topic msg_den)
        (JObj [(''value'', JNum 35), (''unit'', JStr ''C'')]) = Inr (Some sd_den_bus)
   \<and> \<not> fail_request_query env0
   \<and> req_sensor_id req_den = sd_sensor_id sd_den_bus
   \<and> req_value req_den = sd_value sd_den_bus
   \<and> query_sensor_first (sd_sensor_id sd_den_bus) empty_db = None
   \<and> CHR ''_'' \<notin> set (sd_sensor_type sd_den_bus)
   \<and> sd_sensor_type (http_sensor_data env0 req_den empty_db) = sd_sensor_type sd_den_bus
   \<and> sensor_readings (db_after (add_sensor_data env0 req_den empty_db)) =
       sensor_readings (db_after (on_message env0 msg_den empty_db))
   \<and> alerts (db_after (add_sensor_data env0 req_den empty_db)) =
       alerts (db_after (on_message env0 msg_den empty_db))
   \<and> \<not> fail_sensor_query env0 \<and> \<not> fail_sensor_commit env0
   \<and> sensors (db_after (add_sensor_data env0 req_den empty_db)) \<noteq>
       sensors (db_after (on_message env0 msg_den empty_db))
   \<and> query_sensor_first (sd_sensor_id sd_den_bus) (ingest env0 sd_den empty_db) \<noteq> None
   \<and> sensors (db_after (add_sensor_data env0 req_den (ingest env0 sd_den empty_db))) =
       sensors (db_after (on_message env0 msg_den (ingest env0 sd_den empty_db)))"
proof -
  let ?p = "JObj [(''value'', JNum 35), (''unit'', JStr ''C'')]"
  let ?db = "ingest env0 sd_den empty_db"
  have pre: "payload msg_den = Some ?p \<and> mqtt_sensor_data env0 (topic msg_den) ?p = Inr (Some sd_den_bus)
     \<and> \<not> fail_request_query env0
     \<and> req_sensor_id req_den = sd_sensor_id sd_den_bus \<and> req_value req_den = sd_value sd_den_bus
     \<and> (case req_unit req_den of Some u \<Rightarrow> JStr u | None \<Rightarrow> JNull) = sd_unit sd_den_bus"
    by (simp add: msg_den_data env0_sel) (simp add: msg_den_def req_den_def sd_den_bus_def sd_den_def)
  have q0: "query_sensor_first (sd_sensor_id sd_den_bus) empty_db = None"
    by (simp add: query_sensor_first_def empty_db_sel)
  have u: "CHR ''_'' \<notin> set (sd_sensor_type sd_den_bus)"
    by (simp add: sd_den_bus_def sd_den_def)
  have i: "sd_sensor_id sd_den_bus = ''temperature_den''"
    by (simp add: sd_den_bus_def sd_den_def)
  have q1: "query_sensor_first (sd_sensor_id sd_den_bus) ?db \<noteq> None"
    unfolding i by (simp add: query_sensor_first_def ingest_den_sensors row_den_def)
  note a = transports_converge[of msg_den ?p env0 sd_den_bus req_den empty_db]
  note b = transports_converge[of msg_den ?p env0 sd_den_bus req_den ?db]
  have 1: "sensor_readings (db_after (add_sensor_data env0 req_den empty_db)) =
       sensor_readings (db_after (on_message env0 msg_den empty_db))"
    using a pre by blast
  have t: "sd_sensor_type (http_sensor_data env0 req_den empty_db) = sd_sensor_type sd_den_bus"
    by (simp add: req_den_data sd_den_bus_def)
  have 2: "alerts (db_after (add_sensor_data env0 req_den empty_db)) =
       alerts (db_after (on_message env0 msg_den empty_db))"
    using a pre t by blast
  have 3: "sensors (db_after (add_sensor_data env0 req_den ?db)) =
       sensors (db_after (on_message env0 msg_den ?db))"
    using b pre q1 by blast
  have fs: "\<not> fail_sensor_query env0" "\<not> fail_sensor_commit env0"
    by (simp_all add: env0_sel)
  obtain rh rm where rows:
      "sensors (db_after (add_sensor_data env0 req_den empty_db)) = sensors empty_db @ [rh]"
      "sensors (db_after (on_message env0 msg_den empty_db)) = sensors empty_db @ [rm]"
      "s_name rh \<noteq> s_name rm"
    using a pre q0 fs by blast
  have 4: "sensors (db_after (add_sensor_data env0 req_den empty_db)) \<noteq>
       sensors (db_after (on_message env0 msg_den empty_db))"
    unfolding rows(1,2) using rows(3) by auto
  show ?thesis using pre q0 u t fs q1 1 2 3 4 by blast
qed

end
